theory Spec2Isabelle
  imports Complex_Main "HOL-Library.Product_Lexorder"
begin

section \<open>The insight aggregation engine (services/insight-aggregator/src/aggregator.py)\<close>

text \<open>
  A shallow embedding of the class \<^verbatim>\<open>InsightAggregator\<close>. The aggregator object is a
  record of its three mutable attributes and every method takes the record and returns
  the updated one. Conventions:
  \<^item> Python floats (confidences, averages) are exact rationals; rounding is not modelled.
  \<^item> A point in time is a rational number of seconds. Each method takes the instant
    \<open>now\<close> that its calls of \<^verbatim>\<open>datetime.utcnow()\<close> return; the reads made inside one
    call are taken at that same instant.
  \<^item> A raw insight is a dict whose keys may be absent: every key the aggregator reads is
    an optional field, and the \<^verbatim>\<open>.get(key, default)\<close> of the source is a case on it.
  \<^item> A dict that is iterated (the groups, the summary counts) is an association list
    in insertion order, which is the order Python iterates a dict in.
  \<^item> \<^verbatim>\<open>list(set(xs))\<close> lists the distinct elements of \<open>xs\<close> in an order that Python
    leaves to the hash table. The functions that call it take that listing as their
    first argument \<open>list_set\<close>; \<open>set_listing\<close> says what is known about it.
\<close>

subsection \<open>Data\<close>

type_synonym time = rat

record insight_data =
  d_confidence :: "rat option"
  d_severity :: "string option"
  d_description :: "string option"
  d_evidence :: "string list option"
  d_followup_questions :: "string list option"

record raw_insight =
  r_source :: "string option"
  r_type :: "string option"
  r_data :: "insight_data option"
  received_at :: "time option"

record aggregated_insight =
  insight_id :: string
  round_id :: string
  category :: string
  insight_type :: string
  confidence :: rat
  severity :: string
  title :: string
  description :: string
  evidence :: "string list"
  source_services :: "string list"
  followup_questions :: "string list"
  timestamp :: time
  is_alert :: bool

record recommendation =
  rec_type :: string
  priority :: string
  rec_title :: string
  rec_description :: string
  suggested_actions :: "string list option"
  suggested_questions :: "string list option"
  related_insight_id :: string

record summary =
  total_insights :: nat
  alerts_count :: "nat option"
  by_category :: "(string \<times> nat) list option"
  by_severity :: "(string \<times> nat) list option"
  overall_confidence :: "rat option"

record insight_batch =
  batch_round_id :: string
  insights :: "aggregated_insight list"
  recommendations :: "recommendation list"
  batch_summary :: summary
  batch_timestamp :: time

record settings =
  insight_window_seconds :: int
  min_confidence_threshold :: rat
  max_insights_per_batch :: int
  fraud_alert_confidence :: rat
  contradiction_alert_confidence :: rat
  min_alert_interval_seconds :: int
  generate_recommendations :: bool
  max_recommendations_per_round :: int

definition default_settings :: settings where
  "default_settings =
     \<lparr>insight_window_seconds = 30,
      min_confidence_threshold = 7 / 10,
      max_insights_per_batch = 10,
      fraud_alert_confidence = 85 / 100,
      contradiction_alert_confidence = 80 / 100,
      min_alert_interval_seconds = 60,
      generate_recommendations = True,
      max_recommendations_per_round = 5\<rparr>"

record aggregator =
  insight_buffer :: "string \<rightharpoonup> raw_insight list"
  recent_alerts :: "string \<rightharpoonup> time"
  insight_counter :: nat

definition init :: aggregator where
  "init = \<lparr>insight_buffer = Map.empty, recent_alerts = Map.empty, insight_counter = 0\<rparr>"

subsection \<open>Python primitives\<close>

text \<open>\<^verbatim>\<open>xs[:n]\<close>: a negative bound counts from the end of the list.\<close>

definition py_prefix :: "int \<Rightarrow> 'a list \<Rightarrow> 'a list" where
  "py_prefix n xs =
     (if 0 \<le> n then take (nat n) xs else take (length xs - nat (- n)) xs)"

text \<open>\<^verbatim>\<open>d.get(k, default)\<close> on an optional field.\<close>

definition get_or :: "'a option \<Rightarrow> 'a \<Rightarrow> 'a" where
  "get_or v dflt = (case v of Some x \<Rightarrow> x | None \<Rightarrow> dflt)"

text \<open>What is known of \<^verbatim>\<open>list(set(xs))\<close>: the distinct elements of \<open>xs\<close>, each once.\<close>

definition set_listing :: "(string list \<Rightarrow> string list) \<Rightarrow> bool" where
  "set_listing list_set = (\<forall>xs. distinct (list_set xs) \<and> set (list_set xs) = set xs)"

text \<open>The decimal digits of a counter, as \<^verbatim>\<open>f"{n}"\<close> prints them.\<close>

definition digit_char :: "nat \<Rightarrow> char" where
  "digit_char d = ''0123456789'' ! d"

fun str_nat :: "nat \<Rightarrow> string" where
  "str_nat n = (if n < 10 then [digit_char n] else str_nat (n div 10) @ [digit_char (n mod 10)])"

declare str_nat.simps [simp del]

text \<open>
  \<^verbatim>\<open>str.title()\<close> and \<^verbatim>\<open>str.replace('_', ' ')\<close> on ASCII text: a letter that follows a
  letter is lowered, any other letter is raised, other characters are kept.
\<close>

definition is_lower :: "char \<Rightarrow> bool" where
  "is_lower c = (97 \<le> (of_char c :: nat) \<and> (of_char c :: nat) \<le> 122)"

definition is_upper :: "char \<Rightarrow> bool" where
  "is_upper c = (65 \<le> (of_char c :: nat) \<and> (of_char c :: nat) \<le> 90)"

definition to_upper :: "char \<Rightarrow> char" where
  "to_upper c = (if is_lower c then char_of ((of_char c :: nat) - 32) else c)"

definition to_lower :: "char \<Rightarrow> char" where
  "to_lower c = (if is_upper c then char_of ((of_char c :: nat) + 32) else c)"

fun title_from :: "bool \<Rightarrow> string \<Rightarrow> string" where
  "title_from prev_cased [] = []"
| "title_from prev_cased (c # cs) =
     (if is_lower c \<or> is_upper c
      then (if prev_cased then to_lower c else to_upper c) # title_from True cs
      else c # title_from False cs)"

definition py_title :: "string \<Rightarrow> string" where
  "py_title s = title_from False s"

definition replace_underscore :: "string \<Rightarrow> string" where
  "replace_underscore s = map (\<lambda>c. if c = CHR ''_'' then CHR '' '' else c) s"

subsection \<open>The buffer\<close>

text \<open>
  \<^verbatim>\<open>self.insight_buffer\<close> is a \<^verbatim>\<open>defaultdict(list)\<close>: indexing a missing round creates
  an empty list for it, while \<^verbatim>\<open>.get\<close> and \<^verbatim>\<open>in\<close> do not.
\<close>

definition buffer_of :: "aggregator \<Rightarrow> string \<Rightarrow> raw_insight list" where
  "buffer_of st rid = get_or (insight_buffer st rid) []"

definition cleanup_buffer :: "settings \<Rightarrow> time \<Rightarrow> string \<Rightarrow> aggregator \<Rightarrow> aggregator" where
  "cleanup_buffer cfg now rid st =
     (let cutoff = now - of_int (insight_window_seconds cfg * 2)
      in st\<lparr>insight_buffer := (insight_buffer st)
            (rid \<mapsto> filter (\<lambda>i. get_or (received_at i) now > cutoff) (buffer_of st rid))\<rparr>)"

definition add_insight :: "settings \<Rightarrow> time \<Rightarrow> string \<Rightarrow> raw_insight \<Rightarrow> aggregator \<Rightarrow> aggregator" where
  "add_insight cfg now rid insight st =
     (let insight' = insight\<lparr>received_at := Some now\<rparr>;
          st' = st\<lparr>insight_buffer := (insight_buffer st)(rid \<mapsto> buffer_of st rid @ [insight'])\<rparr>
      in cleanup_buffer cfg now rid st')"

definition clear_buffer :: "string \<Rightarrow> aggregator \<Rightarrow> aggregator" where
  "clear_buffer rid st =
     (if rid \<in> dom (insight_buffer st)
      then st\<lparr>insight_buffer := (insight_buffer st)(rid := None)\<rparr>
      else st)"

definition get_buffer_size :: "aggregator \<Rightarrow> string \<Rightarrow> nat" where
  "get_buffer_size st rid = length (get_or (insight_buffer st rid) [])"

subsection \<open>Grouping\<close>

definition source_to_category :: "string \<Rightarrow> string" where
  "source_to_category source =
     get_or (map_of [(''speech-analysis'', ''speech''),
                     (''video-analysis'', ''video''),
                     (''fraud-detection'', ''fraud''),
                     (''nlp-engine'', ''contradiction'')] source) ''other''"

type_synonym groups = "((string \<times> string) \<times> raw_insight list) list"

text \<open>\<^verbatim>\<open>grouped[key].append(insight)\<close>: a new key goes to the end of the dict.\<close>

fun append_to_group :: "string \<times> string \<Rightarrow> raw_insight \<Rightarrow> groups \<Rightarrow> groups" where
  "append_to_group key i [] = [(key, [i])]"
| "append_to_group key i ((k, v) # rest) =
     (if k = key then (k, v @ [i]) # rest else (k, v) # append_to_group key i rest)"

definition group_key :: "raw_insight \<Rightarrow> string \<times> string" where
  "group_key insight =
     (let source = get_or (r_source insight) ''unknown'';
          insight_type = get_or (r_type insight) ''unknown'';
          category = source_to_category source
      in (category, insight_type))"

definition group_insights :: "raw_insight list \<Rightarrow> groups" where
  "group_insights ins = foldl (\<lambda>grouped i. append_to_group (group_key i) i grouped) [] ins"

subsection \<open>Scoring one group\<close>

definition empty_data :: insight_data where
  "empty_data = \<lparr>d_confidence = None, d_severity = None, d_description = None,
                  d_evidence = None, d_followup_questions = None\<rparr>"

definition data_of :: "raw_insight \<Rightarrow> insight_data" where
  "data_of i = get_or (r_data i) empty_data"

definition severity_score :: "string \<Rightarrow> int" where
  "severity_score s = get_or (map_of [(''high'', 3), (''medium'', 2), (''low'', 1)] s) 1"

definition aggregate_severity :: "string list \<Rightarrow> string" where
  "aggregate_severity severities =
     (if severities = [] then ''low''
      else
        let avg_score = (of_int (sum_list (map severity_score severities)) :: rat)
                          / of_nat (length severities)
        in if avg_score \<ge> 5 / 2 then ''high''
           else if avg_score \<ge> 3 / 2 then ''medium''
           else ''low'')"

definition titles :: "((string \<times> string) \<times> string) list" where
  "titles =
     [((''fraud'', ''multiple_faces''), ''Multiple Faces Detected''),
      ((''fraud'', ''face_switch''), ''Face Switch Detected''),
      ((''fraud'', ''background_voice''), ''Background Voice Detected''),
      ((''contradiction'', ''contradiction''), ''Resume Contradiction Found''),
      ((''contradiction'', ''skill_mismatch''), ''Skill Level Mismatch''),
      ((''speech'', ''low_confidence''), ''Low Speaking Confidence''),
      ((''speech'', ''high_hesitation''), ''High Hesitation Detected''),
      ((''video'', ''head_movement''), ''Unusual Head Movement''),
      ((''video'', ''low_quality''), ''Video Quality Issue'')]"

definition generate_title :: "string \<Rightarrow> string \<Rightarrow> raw_insight list \<Rightarrow> string" where
  "generate_title cat ity ins =
     get_or (map_of titles (cat, ity))
       (py_title cat @ '': '' @ py_title (replace_underscore ity))"

definition descriptions :: "((string \<times> string) \<times> string) list" where
  "descriptions =
     [((''fraud'', ''multiple_faces''), ''Multiple people detected in the candidate's video feed. This may indicate someone else is present during the interview.''),
      ((''fraud'', ''face_switch''), ''The face in the video appears to have changed from the original candidate. Identity verification recommended.''),
      ((''fraud'', ''background_voice''), ''Additional voices detected in the audio that may indicate coaching or assistance.''),
      ((''contradiction'', ''contradiction''), ''The candidate's statement contradicts information on their resume.''),
      ((''contradiction'', ''skill_mismatch''), ''The candidate's demonstrated knowledge doesn't match the expertise level claimed on their resume.''),
      ((''speech'', ''low_confidence''), ''Speech analysis indicates the candidate may be uncertain about their response.''),
      ((''speech'', ''high_hesitation''), ''Frequent pauses and filler words detected in the candidate's response.''),
      ((''video'', ''head_movement''), ''Candidate is looking away from the camera frequently.''),
      ((''video'', ''low_quality''), ''Video quality is degraded, which may affect analysis accuracy.'')]"

fun first_description :: "raw_insight list \<Rightarrow> string option" where
  "first_description [] = None"
| "first_description (i # rest) =
     (case d_description (data_of i) of
        Some s \<Rightarrow> (if s \<noteq> [] then Some s else first_description rest)
      | None \<Rightarrow> first_description rest)"

definition generate_description :: "string \<Rightarrow> string \<Rightarrow> raw_insight list \<Rightarrow> string" where
  "generate_description cat ity ins =
     (case first_description ins of
        Some s \<Rightarrow> s
      | None \<Rightarrow> get_or (map_of descriptions (cat, ity))
                  (''Observation in '' @ cat @ '': '' @ ity))"

text \<open>The two collecting loops of \<^verbatim>\<open>_aggregate_group\<close>, before deduplication.\<close>

definition collect_evidence :: "raw_insight list \<Rightarrow> string list" where
  "collect_evidence ins =
     concat (map (\<lambda>i. let d = data_of i
                      in (case d_description d of Some s \<Rightarrow> [s] | None \<Rightarrow> [])
                         @ (case d_evidence d of Some e \<Rightarrow> e | None \<Rightarrow> [])) ins)"

definition collect_followups :: "raw_insight list \<Rightarrow> string list" where
  "collect_followups ins =
     concat (map (\<lambda>i. case d_followup_questions (data_of i) of Some q \<Rightarrow> q | None \<Rightarrow> []) ins)"

definition aggregate_group ::
  "(string list \<Rightarrow> string list) \<Rightarrow> time \<Rightarrow> string \<Rightarrow> string \<Rightarrow> string \<Rightarrow> raw_insight list
     \<Rightarrow> aggregator \<Rightarrow> aggregated_insight option \<times> aggregator" where
  "aggregate_group list_set now rid cat ity ins st =
     (if ins = [] then (None, st)
      else
        let st' = st\<lparr>insight_counter := insight_counter st + 1\<rparr>;
            iid = rid @ ''-'' @ str_nat (insight_counter st');
            total_confidence = sum_list (map (\<lambda>i. get_or (d_confidence (data_of i)) (1 / 2)) ins);
            avg_confidence = total_confidence / of_nat (length ins);
            srcs = list_set (map (\<lambda>i. get_or (r_source i) ''unknown'') ins);
            avg_confidence' =
              (if length srcs > 1 then min 1 (avg_confidence * (11 / 10)) else avg_confidence);
            severities = map (\<lambda>i. get_or (d_severity (data_of i)) ''low'') ins;
            sev = aggregate_severity severities;
            ev = take 5 (list_set (collect_evidence ins));
            fq = take 3 (list_set (collect_followups ins))
        in (Some \<lparr>insight_id = iid,
                  round_id = rid,
                  category = cat,
                  insight_type = ity,
                  confidence = avg_confidence',
                  severity = sev,
                  title = generate_title cat ity ins,
                  description = generate_description cat ity ins,
                  evidence = ev,
                  source_services = srcs,
                  followup_questions = fq,
                  timestamp = now,
                  is_alert = False\<rparr>, st'))"

subsection \<open>The alert gate\<close>

definition alert_key :: "aggregated_insight \<Rightarrow> string" where
  "alert_key insight = round_id insight @ '':'' @ category insight @ '':'' @ insight_type insight"

definition should_be_alert ::
  "settings \<Rightarrow> time \<Rightarrow> aggregated_insight \<Rightarrow> aggregator \<Rightarrow> bool \<times> aggregator" where
  "should_be_alert cfg now insight st =
     (let key = alert_key insight;
          promoted = (True, st\<lparr>recent_alerts := (recent_alerts st)(key \<mapsto> now)\<rparr>)
      in
        if (case recent_alerts st key of
              Some last_alert \<Rightarrow> now - last_alert < of_int (min_alert_interval_seconds cfg)
            | None \<Rightarrow> False)
        then (False, st)
        else if category insight = ''fraud'' \<and> confidence insight \<ge> fraud_alert_confidence cfg
        then promoted
        else if category insight = ''contradiction''
                \<and> confidence insight \<ge> contradiction_alert_confidence cfg
        then promoted
        else if severity insight = ''high'' \<and> confidence insight \<ge> 8 / 10
        then promoted
        else (False, st))"

text \<open>The loop \<^verbatim>\<open>for insight in aggregated: insight.is_alert = ...\<close>.\<close>

fun mark_alerts ::
  "settings \<Rightarrow> time \<Rightarrow> aggregated_insight list \<Rightarrow> aggregator
     \<Rightarrow> aggregated_insight list \<times> aggregator" where
  "mark_alerts cfg now [] st = ([], st)"
| "mark_alerts cfg now (i # rest) st =
     (let (a, st') = should_be_alert cfg now i st;
          (rest', st'') = mark_alerts cfg now rest st'
      in (i\<lparr>is_alert := a\<rparr> # rest', st''))"

subsection \<open>Recommendations and summary\<close>

definition recommend :: "aggregated_insight \<Rightarrow> recommendation list" where
  "recommend insight =
     (if \<not> is_alert insight then []
      else if category insight = ''fraud'' then
        [\<lparr>rec_type = ''action'',
          priority = ''high'',
          rec_title = ''Verify Candidate Identity'',
          rec_description = ''Based on '' @ insight_type insight
                              @ '', consider verifying the candidate's identity.'',
          suggested_actions = Some [''Ask the candidate to show their ID'',
                                    ''Request they pan the camera around the room'',
                                    ''Ask a question only they would know from their application''],
          suggested_questions = None,
          related_insight_id = insight_id insight\<rparr>]
      else if category insight = ''contradiction'' then
        [\<lparr>rec_type = ''clarification'',
          priority = ''medium'',
          rec_title = ''Clarify Resume Claim'',
          rec_description = description insight,
          suggested_actions = None,
          suggested_questions =
            Some (if followup_questions insight \<noteq> [] then followup_questions insight
                  else [''Can you elaborate on that?'',
                        ''Can you walk me through a specific example?'']),
          related_insight_id = insight_id insight\<rparr>]
      else if category insight = ''speech'' \<and> insight_type insight = ''high_hesitation'' then
        [\<lparr>rec_type = ''observation'',
          priority = ''low'',
          rec_title = ''Candidate Hesitation Noted'',
          rec_description = ''The candidate appears hesitant. This could indicate uncertainty or nervousness.'',
          suggested_actions = Some [''Consider asking for more specific examples'',
                                    ''Give the candidate time to think before answering''],
          suggested_questions = None,
          related_insight_id = insight_id insight\<rparr>]
      else [])"

definition generate_recommendations_list ::
  "settings \<Rightarrow> aggregated_insight list \<Rightarrow> recommendation list" where
  "generate_recommendations_list cfg ins =
     py_prefix (max_recommendations_per_round cfg) (concat (map recommend ins))"

text \<open>\<^verbatim>\<open>counts[k] += 1\<close> on a \<^verbatim>\<open>defaultdict(int)\<close>.\<close>

fun bump :: "string \<Rightarrow> (string \<times> nat) list \<Rightarrow> (string \<times> nat) list" where
  "bump k [] = [(k, 1)]"
| "bump k ((k', n) # rest) = (if k' = k then (k', n + 1) # rest else (k', n) # bump k rest)"

definition create_summary :: "aggregated_insight list \<Rightarrow> summary" where
  "create_summary ins =
     (let total = sum_list (map confidence ins)
      in \<lparr>total_insights = length ins,
          alerts_count = Some (length (filter is_alert ins)),
          by_category = Some (foldl (\<lambda>m i. bump (category i) m) [] ins),
          by_severity = Some (foldl (\<lambda>m i. bump (severity i) m) [] ins),
          overall_confidence = Some (if ins \<noteq> [] then total / of_nat (length ins) else total)\<rparr>)"

subsection \<open>Aggregation\<close>

text \<open>The loop over \<^verbatim>\<open>grouped.items()\<close>, which threads the id counter.\<close>

fun score_groups ::
  "(string list \<Rightarrow> string list) \<Rightarrow> time \<Rightarrow> string \<Rightarrow> groups \<Rightarrow> aggregator
     \<Rightarrow> aggregated_insight list \<times> aggregator" where
  "score_groups list_set now rid [] st = ([], st)"
| "score_groups list_set now rid (((cat, ity), ins) # rest) st =
     (let (agg_insight, st') = aggregate_group list_set now rid cat ity ins st;
          (aggregated, st'') = score_groups list_set now rid rest st'
      in ((case agg_insight of Some a \<Rightarrow> [a] | None \<Rightarrow> []) @ aggregated, st''))"

definition category_priority :: "string \<Rightarrow> int" where
  "category_priority c =
     get_or (map_of [(''fraud'', 1), (''contradiction'', 2), (''speech'', 3), (''video'', 4)] c) 99"

definition severity_weights :: "string \<Rightarrow> int" where
  "severity_weights s = get_or (map_of [(''high'', 3), (''medium'', 2), (''low'', 1)] s) 0"

definition sort_key_of :: "aggregated_insight \<Rightarrow> int \<times> rat \<times> int" where
  "sort_key_of x = (category_priority (category x), - confidence x, - severity_weights (severity x))"

text \<open>
  \<^verbatim>\<open>aggregated.sort(key=...)\<close> is a stable ascending sort on the key tuples, compared
  lexicographically; \<open>sort_key\<close> is the stable insertion sort of the list library.
\<close>

definition sort_insights :: "aggregated_insight list \<Rightarrow> aggregated_insight list" where
  "sort_insights xs = sort_key sort_key_of xs"

definition empty_batch :: "time \<Rightarrow> string \<Rightarrow> insight_batch" where
  "empty_batch now rid =
     \<lparr>batch_round_id = rid, insights = [], recommendations = [],
      batch_summary = \<lparr>total_insights = 0, alerts_count = None, by_category = None,
                       by_severity = None, overall_confidence = None\<rparr>,
      batch_timestamp = now\<rparr>"

definition aggregate ::
  "(string list \<Rightarrow> string list) \<Rightarrow> settings \<Rightarrow> time \<Rightarrow> string \<Rightarrow> aggregator
     \<Rightarrow> insight_batch \<times> aggregator" where
  "aggregate list_set cfg now rid st =
     (let raw_insights = get_or (insight_buffer st rid) []
      in if raw_insights = [] then (empty_batch now rid, st)
         else
           let grouped = group_insights raw_insights;
               (aggregated, st1) = score_groups list_set now rid grouped st;
               filtered = filter (\<lambda>i. confidence i \<ge> min_confidence_threshold cfg) aggregated;
               sorted = sort_insights filtered;
               limited = py_prefix (max_insights_per_batch cfg) sorted;
               (marked, st2) = mark_alerts cfg now limited st1;
               recs = (if generate_recommendations cfg
                       then generate_recommendations_list cfg marked else [])
           in (\<lparr>batch_round_id = rid, insights = marked, recommendations = recs,
                batch_summary = create_summary marked, batch_timestamp = now\<rparr>, st2))"

subsection \<open>Call sequences and sample inputs\<close>

text \<open>
  A sequence of calls of \<^verbatim>\<open>_should_be_alert\<close> on one aggregator, each call at its own
  instant, with the value every call returned.
\<close>

fun alert_calls ::
  "settings \<Rightarrow> (time \<times> aggregated_insight) list \<Rightarrow> aggregator \<Rightarrow> bool list \<times> aggregator" where
  "alert_calls cfg [] st = ([], st)"
| "alert_calls cfg ((now, i) # rest) st =
     (let (a, st') = should_be_alert cfg now i st;
          (as, st'') = alert_calls cfg rest st'
      in (a # as, st''))"

text \<open>
  The two tests of \<^verbatim>\<open>_should_be_alert\<close>, named: the thresholds an insight has to
  reach, and the cooldown that suppresses a call.
\<close>

definition confidence_gates :: "settings \<Rightarrow> aggregated_insight \<Rightarrow> bool" where
  "confidence_gates cfg insight =
     (category insight = ''fraud'' \<and> confidence insight \<ge> fraud_alert_confidence cfg
      \<or> category insight = ''contradiction''
          \<and> confidence insight \<ge> contradiction_alert_confidence cfg
      \<or> severity insight = ''high'' \<and> confidence insight \<ge> 8 / 10)"

definition in_cooldown :: "settings \<Rightarrow> time \<Rightarrow> aggregated_insight \<Rightarrow> aggregator \<Rightarrow> bool" where
  "in_cooldown cfg now insight st =
     (case recent_alerts st (alert_key insight) of
        Some last_alert \<Rightarrow> now - last_alert < of_int (min_alert_interval_seconds cfg)
      | None \<Rightarrow> False)"

text \<open>A raw insight as a producer sends it: source, type and \<^verbatim>\<open>data.confidence\<close>.\<close>

definition sample_raw :: "string \<Rightarrow> string \<Rightarrow> rat \<Rightarrow> raw_insight" where
  "sample_raw src ty c =
     \<lparr>r_source = Some src, r_type = Some ty,
      r_data = Some (empty_data\<lparr>d_confidence := Some c\<rparr>), received_at = None\<rparr>"

definition sample_insight :: "string \<Rightarrow> string \<Rightarrow> rat \<Rightarrow> string \<Rightarrow> aggregated_insight" where
  "sample_insight cat ity c sev =
     \<lparr>insight_id = ''r1-1'', round_id = ''r1'', category = cat, insight_type = ity,
      confidence = c, severity = sev, title = [], description = [], evidence = [],
      source_services = [], followup_questions = [], timestamp = 0, is_alert = False\<rparr>"

text \<open>
  The fields of an aggregated insight that belong to one run of \<^verbatim>\<open>aggregate\<close> (the id
  drawn from the counter, the clock reading, the alert flag), blanked out.
\<close>

definition erase_run_fields :: "aggregated_insight \<Rightarrow> aggregated_insight" where
  "erase_run_fields i = i\<lparr>insight_id := [], timestamp := 0, is_alert := False\<rparr>"

text \<open>The number that a string of decimal digits denotes.\<close>

definition digits_value :: "string \<Rightarrow> nat" where
  "digits_value s = foldl (\<lambda>a c. 10 * a + (of_char c - 48)) 0 s"

text \<open>
  The buffer of round \<open>r1\<close> after three insights arrived at instant 0: multiple faces
  reported by fraud detection (0.9) and by video analysis (0.95), and low speaking
  confidence reported by speech analysis (0.4).
\<close>

definition scenario_r1 :: aggregator where
  "scenario_r1 =
     add_insight default_settings 0 ''r1''
       (sample_raw ''speech-analysis'' ''low_confidence'' (4 / 10))
       (add_insight default_settings 0 ''r1''
          (sample_raw ''video-analysis'' ''multiple_faces'' (95 / 100))
          (add_insight default_settings 0 ''r1''
             (sample_raw ''fraud-detection'' ''multiple_faces'' (9 / 10)) init))"

text \<open>Two rounds \<open>a\<close> and \<open>b\<close> with one fraud insight each.\<close>

definition two_rounds :: aggregator where
  "two_rounds =
     add_insight default_settings 0 ''b'' (sample_raw ''fraud-detection'' ''face_switch'' (9 / 10))
       (add_insight default_settings 0 ''a'' (sample_raw ''fraud-detection'' ''face_switch'' (9 / 10))
          init)"

text \<open>Round \<open>r1\<close> holding one insight only, of confidence 0.4.\<close>

definition low_confidence_only :: aggregator where
  "low_confidence_only =
     add_insight default_settings 0 ''r1''
       (sample_raw ''speech-analysis'' ''low_confidence'' (4 / 10)) init"

text \<open>
  Three records of one group reported by two producers the source table does not know,
  three records of one producer, and three records that carry eight distinct evidence
  strings (one of them twice as a description, one twice as evidence) and four distinct
  follow-up questions between them.
\<close>

definition sample_three_sources :: "raw_insight list" where
  "sample_three_sources =
     [sample_raw ''gaze-a'' ''gaze'' (6 / 10), sample_raw ''gaze-b'' ''gaze'' (9 / 10),
      sample_raw ''gaze-a'' ''gaze'' (9 / 10)]"

definition sample_one_source :: "raw_insight list" where
  "sample_one_source =
     [sample_raw ''fraud-detection'' ''face_switch'' (9 / 10),
      sample_raw ''fraud-detection'' ''face_switch'' (8 / 10),
      sample_raw ''fraud-detection'' ''face_switch'' (7 / 10)]"

definition sample_evidence8 :: "raw_insight list" where
  "sample_evidence8 =
     [\<lparr>r_source = Some ''nlp-engine'', r_type = Some ''contradiction'',
       r_data = Some \<lparr>d_confidence = Some (9 / 10), d_severity = Some ''high'',
                       d_description = Some ''e1'',
                       d_evidence = Some [''e2'', ''e3''],
                       d_followup_questions = Some [''q1'', ''q2'']\<rparr>,
       received_at = Some 0\<rparr>,
      \<lparr>r_source = Some ''nlp-engine'', r_type = Some ''contradiction'',
       r_data = Some \<lparr>d_confidence = Some (8 / 10), d_severity = Some ''medium'',
                       d_description = None,
                       d_evidence = Some [''e3'', ''e4'', ''e5'', ''e6''],
                       d_followup_questions = None\<rparr>,
       received_at = Some 0\<rparr>,
      \<lparr>r_source = Some ''nlp-engine'', r_type = Some ''contradiction'',
       r_data = Some \<lparr>d_confidence = Some (8 / 10), d_severity = Some ''high'',
                       d_description = Some ''e1'',
                       d_evidence = Some [''e7'', ''e8''],
                       d_followup_questions = Some [''q2'', ''q3'', ''q4'']\<rparr>,
       received_at = Some 0\<rparr>]"

section \<open>Properties\<close>

subsection \<open>The buffer\<close>

text \<open>
  C10. \<^verbatim>\<open>clear_buffer(round_id)\<close> removes that round's entry and nothing else: the
  round has no entry in the buffer afterwards and its buffer size is 0, every other
  round's buffer, the id counter and the whole map of recent alerts are as before, and
  clearing a round that has no buffer changes nothing.
\<close>

theorem clear_buffer_frame:
  "insight_buffer (clear_buffer rid st) rid = None
   \<and> get_buffer_size (clear_buffer rid st) rid = 0
   \<and> (r \<noteq> rid \<longrightarrow> insight_buffer (clear_buffer rid st) r = insight_buffer st r)
   \<and> insight_counter (clear_buffer rid st) = insight_counter st
   \<and> recent_alerts (clear_buffer rid st) = recent_alerts st
   \<and> (insight_buffer st rid = None \<longrightarrow> clear_buffer rid st = st)"
  by (auto simp: clear_buffer_def get_buffer_size_def get_or_def dom_def)

theorem clear_buffer_frame_witness:
  "insight_buffer
     (add_insight default_settings 0 ''r2'' (sample_raw ''nlp-engine'' ''contradiction'' (9 / 10))
       (add_insight default_settings 0 ''r1'' (sample_raw ''fraud-detection'' ''face_switch'' (9 / 10))
          init)) ''r1'' \<noteq> None
   \<and> get_buffer_size
     (add_insight default_settings 0 ''r2'' (sample_raw ''nlp-engine'' ''contradiction'' (9 / 10))
       (add_insight default_settings 0 ''r1'' (sample_raw ''fraud-detection'' ''face_switch'' (9 / 10))
          init)) ''r1'' = 1
   \<and> insight_buffer (clear_buffer ''r1''
     (add_insight default_settings 0 ''r2'' (sample_raw ''nlp-engine'' ''contradiction'' (9 / 10))
       (add_insight default_settings 0 ''r1'' (sample_raw ''fraud-detection'' ''face_switch'' (9 / 10))
          init))) ''r1'' = None
   \<and> get_buffer_size (clear_buffer ''r1''
     (add_insight default_settings 0 ''r2'' (sample_raw ''nlp-engine'' ''contradiction'' (9 / 10))
       (add_insight default_settings 0 ''r1'' (sample_raw ''fraud-detection'' ''face_switch'' (9 / 10))
          init))) ''r1'' = 0
   \<and> ''r2'' \<noteq> ''r1''
   \<and> get_buffer_size (clear_buffer ''r1''
     (add_insight default_settings 0 ''r2'' (sample_raw ''nlp-engine'' ''contradiction'' (9 / 10))
       (add_insight default_settings 0 ''r1'' (sample_raw ''fraud-detection'' ''face_switch'' (9 / 10))
          init))) ''r2'' = 1
   \<and> insight_buffer init ''r1'' = None \<and> clear_buffer ''r1'' init = init"
  using clear_buffer_frame [of "''r1''"
      "add_insight default_settings 0 ''r2'' (sample_raw ''nlp-engine'' ''contradiction'' (9 / 10))
         (add_insight default_settings 0 ''r1'' (sample_raw ''fraud-detection'' ''face_switch'' (9 / 10))
            init)" "''r2''"]
    clear_buffer_frame [of "''r1''" init]
  by (simp add: get_buffer_size_def add_insight_def cleanup_buffer_def buffer_of_def get_or_def
      init_def default_settings_def sample_raw_def Let_def)

text \<open>
  C6. Right after \<^verbatim>\<open>add_insight(round_id, insight)\<close> at the instant \<open>now\<close>, every record
  in that round's buffer was received after \<open>now - 2 * insight_window_seconds\<close>; so a
  record of the old buffer whose \<^verbatim>\<open>received_at\<close> lies further back than that is not
  in the buffer any more.
\<close>

theorem add_insight_evicts:
  "(i \<in> set (buffer_of (add_insight cfg now rid ins st) rid) \<and> received_at i = Some ra
       \<longrightarrow> now - of_int (2 * insight_window_seconds cfg) < ra)
   \<and> (j \<in> set (buffer_of st rid) \<and> received_at j = Some rb
         \<and> rb < now - of_int (2 * insight_window_seconds cfg)
       \<longrightarrow> j \<notin> set (buffer_of (add_insight cfg now rid ins st) rid))"
  by (auto simp: add_insight_def cleanup_buffer_def buffer_of_def get_or_def Let_def mult.commute)

theorem add_insight_evicts_witness:
  "buffer_of (init\<lparr>insight_buffer :=
       [''r1'' \<mapsto> [(sample_raw ''speech-analysis'' ''low_confidence'' (4 / 10))
                        \<lparr>received_at := Some (- 100)\<rparr>]]\<rparr>) ''r1''
     = [(sample_raw ''speech-analysis'' ''low_confidence'' (4 / 10))\<lparr>received_at := Some (- 100)\<rparr>]
   \<and> (- 100 :: rat) < 0 - of_int (2 * insight_window_seconds default_settings)
   \<and> buffer_of (add_insight default_settings 0 ''r1''
        (sample_raw ''fraud-detection'' ''face_switch'' (9 / 10))
        (init\<lparr>insight_buffer :=
           [''r1'' \<mapsto> [(sample_raw ''speech-analysis'' ''low_confidence'' (4 / 10))
                            \<lparr>received_at := Some (- 100)\<rparr>]]\<rparr>)) ''r1''
     = [(sample_raw ''fraud-detection'' ''face_switch'' (9 / 10))\<lparr>received_at := Some 0\<rparr>]
   \<and> (0 :: rat) - of_int (2 * insight_window_seconds default_settings) < 0"
  using add_insight_evicts [of
      "(sample_raw ''fraud-detection'' ''face_switch'' (9 / 10))\<lparr>received_at := Some 0\<rparr>"
      default_settings 0 "''r1''" "sample_raw ''fraud-detection'' ''face_switch'' (9 / 10)"
      "init\<lparr>insight_buffer :=
         [''r1'' \<mapsto> [(sample_raw ''speech-analysis'' ''low_confidence'' (4 / 10))
                          \<lparr>received_at := Some (- 100)\<rparr>]]\<rparr>"
      0
      "(sample_raw ''speech-analysis'' ''low_confidence'' (4 / 10))\<lparr>received_at := Some (- 100)\<rparr>"
      "- 100"]
  by (simp add: add_insight_def cleanup_buffer_def buffer_of_def get_or_def
      init_def default_settings_def sample_raw_def Let_def)

subsection \<open>The alert gate\<close>

lemma should_be_alert_eq:
  "should_be_alert cfg now x st =
     (if in_cooldown cfg now x st then (False, st)
      else if confidence_gates cfg x
      then (True, st\<lparr>recent_alerts := (recent_alerts st)(alert_key x \<mapsto> now)\<rparr>)
      else (False, st))"
  by (simp add: should_be_alert_def in_cooldown_def confidence_gates_def Let_def)

lemma alert_calls_length: "length (fst (alert_calls cfg calls st)) = length calls"
  by (induction calls arbitrary: st) (auto simp: split_beta)

lemma alert_calls_append:
  "alert_calls cfg (xs @ ys) st =
     (let (as, st') = alert_calls cfg xs st; (bs, st'') = alert_calls cfg ys st'
      in (as @ bs, st''))"
  by (induction xs arbitrary: st) (auto simp: split_beta)

text \<open>
  Once a key holds a timestamp not before \<open>t0\<close>, later calls keep it so: a call
  overwrites the key only when it promotes, which takes a clock reading at least the
  interval past the stored one.
\<close>

lemma cooldown_persists:
  "recent_alerts st key = Some e \<Longrightarrow> t0 \<le> e
   \<Longrightarrow> 0 \<le> min_alert_interval_seconds cfg \<or> (\<forall>c \<in> set mid. t0 \<le> fst c)
   \<Longrightarrow> \<exists>e'. recent_alerts (snd (alert_calls cfg mid st)) key = Some e' \<and> t0 \<le> e'"
proof (induction mid arbitrary: st e)
  case Nil
  then show ?case by simp
next
  case (Cons c mid)
  obtain t x where c: "c = (t, x)" by (cases c)
  obtain a st' where s: "should_be_alert cfg t x st = (a, st')"
    by (cases "should_be_alert cfg t x st")
  have "\<exists>e1. recent_alerts st' key = Some e1 \<and> t0 \<le> e1"
  proof (cases "a \<and> alert_key x = key")
    case True
    then have nc: "\<not> in_cooldown cfg t x st" and st': "recent_alerts st' key = Some t"
      using s by (auto simp: should_be_alert_eq split: if_splits)
    from nc True Cons.prems(1) have "\<not> t - e < of_int (min_alert_interval_seconds cfg)"
      by (simp add: in_cooldown_def)
    with Cons.prems(2,3) c have "t0 \<le> t" by auto
    with st' show ?thesis by simp
  next
    case False
    then have "recent_alerts st' key = recent_alerts st key"
      using s by (auto simp: should_be_alert_eq split: if_splits)
    with Cons.prems show ?thesis by simp
  qed
  then obtain e1 where e1: "recent_alerts st' key = Some e1" "t0 \<le> e1" by blast
  have "0 \<le> min_alert_interval_seconds cfg \<or> (\<forall>c \<in> set mid. t0 \<le> fst c)"
    using Cons.prems(3) by auto
  from Cons.IH[OF e1 this] show ?case
    using c s by (simp add: split_beta)
qed

lemma cooldown_trace:
  assumes run: "alert_calls cfg (pre @ (t, x) # mid @ (t', x') # post) st = (rs, st')"
    and promoted: "rs ! length pre"
    and key: "alert_key x' = alert_key x"
    and near: "t' - t < of_int (min_alert_interval_seconds cfg)"
    and clock: "0 \<le> min_alert_interval_seconds cfg \<or> (\<forall>c \<in> set mid. t \<le> fst c)"
  shows "\<not> rs ! (length pre + 1 + length mid)"
proof -
  obtain as s0 where pre: "alert_calls cfg pre st = (as, s0)"
    by (cases "alert_calls cfg pre st")
  obtain a s1 where one: "should_be_alert cfg t x s0 = (a, s1)"
    by (cases "should_be_alert cfg t x s0")
  obtain bs s2 where mid: "alert_calls cfg mid s1 = (bs, s2)"
    by (cases "alert_calls cfg mid s1")
  obtain a' s3 where two: "should_be_alert cfg t' x' s2 = (a', s3)"
    by (cases "should_be_alert cfg t' x' s2")
  obtain cs s4 where post: "alert_calls cfg post s3 = (cs, s4)"
    by (cases "alert_calls cfg post s3")
  have la: "length as = length pre" using alert_calls_length[of cfg pre st] pre by simp
  have lb: "length bs = length mid" using alert_calls_length[of cfg mid s1] mid by simp
  have rs: "rs = as @ a # bs @ a' # cs"
    using run pre one mid two post by (simp add: alert_calls_append)
  from promoted rs la have a by (simp add: nth_append)
  with one have "recent_alerts s1 (alert_key x) = Some t"
    by (auto simp: should_be_alert_eq split: if_splits)
  from cooldown_persists[OF this order_refl clock] mid
  obtain e' where e': "recent_alerts s2 (alert_key x) = Some e'" "t \<le> e'" by auto
  with near key have "in_cooldown cfg t' x' s2" by (simp add: in_cooldown_def)
  with two have "\<not> a'" by (simp add: should_be_alert_eq)
  moreover have "rs ! (length pre + 1 + length mid) = a'"
    using rs la lb by (simp add: nth_append)
  ultimately show ?thesis by simp
qed

text \<open>
  C3. In any sequence of \<^verbatim>\<open>_should_be_alert\<close> calls, if a call at instant \<open>t\<close> returned
  true, each later call for the same key at an instant \<open>t'\<close> with
  \<open>t' - t < min_alert_interval_seconds\<close> returns false (the calls in between happen at
  \<open>t\<close> or later, or the interval is not negative). A call for a key that has no
  timestamp, or whose timestamp is at least the interval back, returns exactly what the
  confidence and severity gates say. A call that returns true writes \<open>now\<close> under its
  key and changes nothing else; a call that returns false leaves the aggregator as it is.
\<close>

theorem alert_cooldown:
  "(alert_calls cfg (pre @ (t, x) # mid @ (t', x') # post) st = (rs, st')
      \<and> rs ! length pre
      \<and> alert_key x' = alert_key x
      \<and> t' - t < of_int (min_alert_interval_seconds cfg)
      \<and> (0 \<le> min_alert_interval_seconds cfg \<or> (\<forall>c \<in> set mid. t \<le> fst c))
    \<longrightarrow> \<not> rs ! (length pre + 1 + length mid))
   \<and> ((recent_alerts s (alert_key y) = None
        \<or> (\<exists>last_alert. recent_alerts s (alert_key y) = Some last_alert
              \<and> \<not> now - last_alert < of_int (min_alert_interval_seconds cfg)))
    \<longrightarrow> fst (should_be_alert cfg now y s)
          = (category y = ''fraud'' \<and> confidence y \<ge> fraud_alert_confidence cfg
             \<or> category y = ''contradiction'' \<and> confidence y \<ge> contradiction_alert_confidence cfg
             \<or> severity y = ''high'' \<and> confidence y \<ge> 8 / 10))
   \<and> (fst (should_be_alert cfg now y s)
    \<longrightarrow> snd (should_be_alert cfg now y s)
          = s\<lparr>recent_alerts := (recent_alerts s)(alert_key y \<mapsto> now)\<rparr>)
   \<and> (\<not> fst (should_be_alert cfg now y s) \<longrightarrow> snd (should_be_alert cfg now y s) = s)"
proof (intro conjI impI)
  assume "alert_calls cfg (pre @ (t, x) # mid @ (t', x') # post) st = (rs, st')
      \<and> rs ! length pre
      \<and> alert_key x' = alert_key x
      \<and> t' - t < of_int (min_alert_interval_seconds cfg)
      \<and> (0 \<le> min_alert_interval_seconds cfg \<or> (\<forall>c \<in> set mid. t \<le> fst c))"
  then show "\<not> rs ! (length pre + 1 + length mid)"
    using cooldown_trace[of cfg pre t x mid t' x' post st rs st'] by blast
next
  assume "recent_alerts s (alert_key y) = None
        \<or> (\<exists>last_alert. recent_alerts s (alert_key y) = Some last_alert
              \<and> \<not> now - last_alert < of_int (min_alert_interval_seconds cfg))"
  then have "\<not> in_cooldown cfg now y s"
    by (auto simp: in_cooldown_def)
  then show "fst (should_be_alert cfg now y s)
          = (category y = ''fraud'' \<and> confidence y \<ge> fraud_alert_confidence cfg
             \<or> category y = ''contradiction'' \<and> confidence y \<ge> contradiction_alert_confidence cfg
             \<or> severity y = ''high'' \<and> confidence y \<ge> 8 / 10)"
    by (simp add: should_be_alert_eq confidence_gates_def)
next
  assume "fst (should_be_alert cfg now y s)"
  then show "snd (should_be_alert cfg now y s)
          = s\<lparr>recent_alerts := (recent_alerts s)(alert_key y \<mapsto> now)\<rparr>"
    by (simp add: should_be_alert_eq split: if_splits)
next
  assume "\<not> fst (should_be_alert cfg now y s)"
  then show "snd (should_be_alert cfg now y s) = s"
    by (simp add: should_be_alert_eq split: if_splits)
qed

theorem alert_cooldown_witness:
  "alert_calls default_settings
       [(0, sample_insight ''fraud'' ''multiple_faces'' (9 / 10) ''low''),
        (30, sample_insight ''fraud'' ''multiple_faces'' (9 / 10) ''low'')] init
     = ([True, False], init\<lparr>recent_alerts := [''r1:fraud:multiple_faces'' \<mapsto> 0]\<rparr>)
   \<and> (30 :: rat) - 0 < of_int (min_alert_interval_seconds default_settings)
   \<and> 0 \<le> min_alert_interval_seconds default_settings
   \<and> recent_alerts init (alert_key (sample_insight ''fraud'' ''multiple_faces'' (9 / 10) ''low'')) = None
   \<and> should_be_alert default_settings 0 (sample_insight ''fraud'' ''multiple_faces'' (9 / 10) ''low'') init
       = (True, init\<lparr>recent_alerts := [''r1:fraud:multiple_faces'' \<mapsto> 0]\<rparr>)
   \<and> should_be_alert default_settings 0 (sample_insight ''speech'' ''low_confidence'' (9 / 10) ''low'') init
       = (False, init)"
  using alert_cooldown [where cfg = default_settings and pre = "[]" and t = 0
      and x = "sample_insight ''fraud'' ''multiple_faces'' (9 / 10) ''low''" and mid = "[]"
      and t' = 30 and x' = "sample_insight ''fraud'' ''multiple_faces'' (9 / 10) ''low''"
      and post = "[]" and st = init and rs = "[True, False]"
      and st' = "init\<lparr>recent_alerts := [''r1:fraud:multiple_faces'' \<mapsto> 0]\<rparr>"
      and s = init and y = "sample_insight ''fraud'' ''multiple_faces'' (9 / 10) ''low''"
      and now = 0]
    alert_cooldown [where cfg = default_settings and pre = "[]" and mid = "[]" and s = init
      and y = "sample_insight ''speech'' ''low_confidence'' (9 / 10) ''low''" and now = 0]
  by (simp add: should_be_alert_def alert_key_def sample_insight_def default_settings_def
      init_def Let_def)

subsection \<open>Facts about the steps of aggregation\<close>

lemma py_prefix_Nil: "py_prefix n [] = []"
  by (simp add: py_prefix_def)

lemma py_prefix_take: "\<exists>k. py_prefix n xs = take k xs"
  by (auto simp: py_prefix_def)

lemma set_py_prefix: "set (py_prefix n xs) \<subseteq> set xs"
  using py_prefix_take[of n xs] by (auto dest: in_set_takeD)

lemma length_py_prefix: "0 \<le> n \<Longrightarrow> length (py_prefix n xs) \<le> nat n"
  by (simp add: py_prefix_def)

lemma map_py_prefix: "map f (py_prefix n xs) = py_prefix n (map f xs)"
  by (simp add: py_prefix_def take_map)

lemma group_insights_Nil: "group_insights [] = []"
  by (simp add: group_insights_def)

lemma set_listing_length: "set_listing ls \<Longrightarrow> length (ls xs) = card (set xs)"
  by (metis set_listing_def distinct_card)

lemma aggregate_group_Some:
  assumes "aggregate_group ls now rid cat ity ins st = (Some a, st')"
  shows "ins \<noteq> []"
    and "st' = st\<lparr>insight_counter := insight_counter st + 1\<rparr>"
    and "insight_id a = rid @ ''-'' @ str_nat (insight_counter st + 1)"
    and "confidence a =
           (if length (ls (map (\<lambda>i. get_or (r_source i) ''unknown'') ins)) > 1
            then min 1 (sum_list (map (\<lambda>i. get_or (d_confidence (data_of i)) (1 / 2)) ins)
                          / of_nat (length ins) * (11 / 10))
            else sum_list (map (\<lambda>i. get_or (d_confidence (data_of i)) (1 / 2)) ins)
                   / of_nat (length ins))"
    and "evidence a = take 5 (ls (collect_evidence ins))"
    and "followup_questions a = take 3 (ls (collect_followups ins))"
    and "is_alert a = False"
    and "round_id a = rid" and "category a = cat" and "insight_type a = ity"
  using assms by (auto simp: aggregate_group_def Let_def split: if_splits)

lemma aggregate_group_nonempty:
  "ins \<noteq> [] \<Longrightarrow> \<exists>a. aggregate_group ls now rid cat ity ins st
       = (Some a, st\<lparr>insight_counter := insight_counter st + 1\<rparr>)"
  by (simp add: aggregate_group_def Let_def)

lemma mean_in_unit:
  fixes f :: "'a \<Rightarrow> rat"
  assumes "xs \<noteq> []" and "\<forall>x \<in> set xs. 0 \<le> f x \<and> f x \<le> 1"
  shows "0 \<le> sum_list (map f xs) / of_nat (length xs)"
    and "sum_list (map f xs) / of_nat (length xs) \<le> 1"
proof -
  have nn: "0 \<le> sum_list (map f xs)"
    using assms(2) by (intro sum_list_nonneg) auto
  have "sum_list (map f xs) \<le> sum_list (map (\<lambda>_. 1) xs)"
    using assms(2) by (intro sum_list_mono) auto
  then have le: "sum_list (map f xs) \<le> of_nat (length xs)"
    by (simp add: sum_list_triv)
  have pos: "(0::rat) < of_nat (length xs)" using assms(1) by simp
  show "0 \<le> sum_list (map f xs) / of_nat (length xs)" using nn pos by simp
  show "sum_list (map f xs) / of_nat (length xs) \<le> 1" using le pos by (simp add: divide_le_eq)
qed

lemma mark_alerts_unmark:
  "map (\<lambda>i. i\<lparr>is_alert := False\<rparr>) (fst (mark_alerts cfg now xs st))
     = map (\<lambda>i. i\<lparr>is_alert := False\<rparr>) xs"
  by (induction xs arbitrary: st) (auto simp: split_beta)

lemma should_be_alert_frame:
  "insight_buffer (snd (should_be_alert cfg now x st)) = insight_buffer st"
  "insight_counter (snd (should_be_alert cfg now x st)) = insight_counter st"
  by (simp_all add: should_be_alert_def Let_def)

lemma mark_alerts_frame:
  "insight_buffer (snd (mark_alerts cfg now xs st)) = insight_buffer st
   \<and> insight_counter (snd (mark_alerts cfg now xs st)) = insight_counter st"
  by (induction xs arbitrary: st) (simp_all add: split_beta should_be_alert_frame)

lemma mark_alerts_ids:
  "map insight_id (fst (mark_alerts cfg now xs st)) = map insight_id xs"
  by (induction xs arbitrary: st) (simp_all add: split_beta)

lemma mark_alerts_erase:
  "map erase_run_fields (fst (mark_alerts cfg now xs st)) = map erase_run_fields xs"
  by (induction xs arbitrary: st) (simp_all add: split_beta erase_run_fields_def)

lemma score_groups_no_alert:
  "a \<in> set (fst (score_groups ls now rid gs st)) \<Longrightarrow> \<not> is_alert a"
proof (induction ls now rid gs st rule: score_groups.induct)
  case (1 ls now rid st)
  then show ?case by simp
next
  case (2 ls now rid cat ity ins rest st)
  obtain ag st' where ag: "aggregate_group ls now rid cat ity ins st = (ag, st')"
    by (cases "aggregate_group ls now rid cat ity ins st")
  from "2.prems" ag consider "ag = Some a" | "a \<in> set (fst (score_groups ls now rid rest st'))"
    by (auto simp: split_beta split: option.splits)
  then show ?case
  proof cases
    case 1
    with ag show ?thesis using aggregate_group_Some(7) by blast
  next
    case 2
    with "2.IH"[OF ag[symmetric] refl] show ?thesis by simp
  qed
qed

lemma unmark_id:
  "\<forall>a \<in> set xs. \<not> is_alert a \<Longrightarrow> map (\<lambda>i. i\<lparr>is_alert := False\<rparr>) xs = xs"
  by (induction xs) auto

lemma sort_key_of_unmark: "sort_key_of (i\<lparr>is_alert := b\<rparr>) = sort_key_of i"
  by (simp add: sort_key_of_def)

lemma score_groups_counter:
  "snd (score_groups ls now rid gs st)
     = st\<lparr>insight_counter := insight_counter st + length (fst (score_groups ls now rid gs st))\<rparr>"
proof (induction ls now rid gs st rule: score_groups.induct)
  case (1 ls now rid st)
  then show ?case by simp
next
  case (2 ls now rid cat ity ins rest st)
  obtain ag st' where ag: "aggregate_group ls now rid cat ity ins st = (ag, st')"
    by (cases "aggregate_group ls now rid cat ity ins st")
  have st': "st' = st\<lparr>insight_counter := insight_counter st + (case ag of Some _ \<Rightarrow> 1 | None \<Rightarrow> 0)\<rparr>"
    using ag by (auto simp: aggregate_group_def Let_def split: if_splits)
  show ?case
    using "2.IH"[OF ag[symmetric] refl] ag st'
    by (simp add: split_beta split: option.splits)
qed

lemma score_groups_nth_id:
  "k < length (fst (score_groups ls now rid gs st))
   \<Longrightarrow> insight_id (fst (score_groups ls now rid gs st) ! k)
       = rid @ ''-'' @ str_nat (insight_counter st + k + 1)"
proof (induction ls now rid gs st arbitrary: k rule: score_groups.induct)
  case (1 ls now rid st)
  then show ?case by simp
next
  case (2 ls now rid cat ity ins rest st)
  obtain ag st' where ag: "aggregate_group ls now rid cat ity ins st = (ag, st')"
    by (cases "aggregate_group ls now rid cat ity ins st")
  let ?rest = "fst (score_groups ls now rid rest st')"
  have all: "fst (score_groups ls now rid (((cat, ity), ins) # rest) st)
      = (case ag of Some a \<Rightarrow> [a] | None \<Rightarrow> []) @ ?rest"
    using ag by (simp add: split_beta)
  show ?case
  proof (cases ag)
    case None
    then have "st' = st" using ag by (auto simp: aggregate_group_def Let_def split: if_splits)
    with "2.IH"[OF ag[symmetric] refl, of k] "2.prems" all None show ?thesis by simp
  next
    case (Some a)
    note s = aggregate_group_Some[OF ag[unfolded Some]]
    show ?thesis
    proof (cases k)
      case 0
      with all Some s show ?thesis by simp
    next
      case (Suc j)
      with "2.prems" all Some have "j < length ?rest" by simp
      from "2.IH"[OF ag[symmetric] refl this] s(2) Suc all Some show ?thesis by simp
    qed
  qed
qed

lemma aggregate_insights:
  "insights (fst (aggregate ls cfg now rid st))
     = fst (mark_alerts cfg now
         (py_prefix (max_insights_per_batch cfg)
            (sort_insights (filter (\<lambda>i. confidence i \<ge> min_confidence_threshold cfg)
               (fst (score_groups ls now rid (group_insights (buffer_of st rid)) st)))))
         (snd (score_groups ls now rid (group_insights (buffer_of st rid)) st)))"
  by (simp add: aggregate_def buffer_of_def Let_def split_beta empty_batch_def
      group_insights_Nil py_prefix_Nil sort_insights_def)

lemma aggregate_state:
  "snd (aggregate ls cfg now rid st)
     = snd (mark_alerts cfg now
         (py_prefix (max_insights_per_batch cfg)
            (sort_insights (filter (\<lambda>i. confidence i \<ge> min_confidence_threshold cfg)
               (fst (score_groups ls now rid (group_insights (buffer_of st rid)) st)))))
         (snd (score_groups ls now rid (group_insights (buffer_of st rid)) st)))"
  by (simp add: aggregate_def buffer_of_def Let_def split_beta empty_batch_def
      group_insights_Nil py_prefix_Nil sort_insights_def)

lemma aggregate_recommendations_empty:
  "insights (fst (aggregate ls cfg now rid st)) = []
   \<Longrightarrow> recommendations (fst (aggregate ls cfg now rid st)) = []
       \<and> total_insights (batch_summary (fst (aggregate ls cfg now rid st))) = 0"
  by (simp add: aggregate_def Let_def split_beta empty_batch_def
      generate_recommendations_list_def py_prefix_Nil create_summary_def split: if_splits)

lemma aggregate_counter:
  "insight_counter (snd (aggregate ls cfg now rid st))
     = insight_counter st
       + length (fst (score_groups ls now rid (group_insights (buffer_of st rid)) st))"
  by (simp add: aggregate_state mark_alerts_frame) (simp add: score_groups_counter)

lemma aggregate_buffer: "insight_buffer (snd (aggregate ls cfg now rid st)) = insight_buffer st"
  by (simp add: aggregate_state mark_alerts_frame) (simp add: score_groups_counter)

lemma aggregate_ids:
  assumes "a \<in> set (insights (fst (aggregate ls cfg now rid st)))"
  shows "\<exists>n. insight_counter st < n \<and> n \<le> insight_counter (snd (aggregate ls cfg now rid st))
            \<and> insight_id a = rid @ ''-'' @ str_nat n"
proof -
  let ?sc = "fst (score_groups ls now rid (group_insights (buffer_of st rid)) st)"
  have "insight_id a \<in> set (map insight_id (insights (fst (aggregate ls cfg now rid st))))"
    using assms by simp
  then have "insight_id a \<in> insight_id ` set ?sc"
    using set_py_prefix[of "max_insights_per_batch cfg"
        "sort_insights (filter (\<lambda>i. confidence i \<ge> min_confidence_threshold cfg) ?sc)"]
    by (auto simp: aggregate_insights mark_alerts_ids sort_insights_def)
  then obtain k where k: "k < length ?sc" "insight_id a = insight_id (?sc ! k)"
    by (auto simp: in_set_conv_nth)
  then have "insight_id a = rid @ ''-'' @ str_nat (insight_counter st + k + 1)"
    by (simp add: score_groups_nth_id)
  with k(1) show ?thesis
    by (intro exI[of _ "insight_counter st + k + 1"]) (simp add: aggregate_counter)
qed

lemma aggregate_group_erase:
  "map erase_run_fields
       (case fst (aggregate_group ls now rid cat ity ins st) of Some a \<Rightarrow> [a] | None \<Rightarrow> [])
     = map erase_run_fields
         (case fst (aggregate_group ls now' rid cat ity ins st') of Some a \<Rightarrow> [a] | None \<Rightarrow> [])"
  by (simp add: aggregate_group_def Let_def erase_run_fields_def)

lemma score_groups_erase:
  "map erase_run_fields (fst (score_groups ls now rid gs st))
     = map erase_run_fields (fst (score_groups ls now' rid gs st'))"
proof (induction gs arbitrary: st st')
  case Nil
  then show ?case by simp
next
  case (Cons g gs)
  obtain cat ity ins where g: "g = ((cat, ity), ins)" by (cases g) auto
  note aggregate_group_erase[of ls now rid cat ity ins st now' st']
  with Cons.IH show ?case
    by (simp add: g split_beta)
qed

lemma insort_key_map:
  assumes "\<And>y. k (f y) = k y"
  shows "map f (insort_key k x ys) = insort_key k (f x) (map f ys)"
  by (induction ys) (simp_all add: assms)

lemma sort_key_map:
  assumes "\<And>y. k (f y) = k y"
  shows "map f (sort_key k xs) = sort_key k (map f xs)"
  by (induction xs) (simp_all add: insort_key_map[of k f, OF assms])

lemma sort_insights_erase:
  "map erase_run_fields (sort_insights xs) = sort_insights (map erase_run_fields xs)"
  unfolding sort_insights_def
  by (rule sort_key_map) (simp add: sort_key_of_def erase_run_fields_def)

lemma filter_erase:
  "map erase_run_fields (filter (\<lambda>i. confidence i \<ge> c) xs)
     = filter (\<lambda>i. confidence i \<ge> c) (map erase_run_fields xs)"
  by (induction xs) (simp_all add: erase_run_fields_def)

lemma aggregate_erase:
  "map erase_run_fields (insights (fst (aggregate ls cfg now rid st)))
     = py_prefix (max_insights_per_batch cfg)
         (sort_insights (filter (\<lambda>i. confidence i \<ge> min_confidence_threshold cfg)
            (map erase_run_fields
               (fst (score_groups ls now rid (group_insights (buffer_of st rid)) st)))))"
  by (simp add: aggregate_insights mark_alerts_erase map_py_prefix sort_insights_erase filter_erase)

lemma digit_char_value: "d < 10 \<Longrightarrow> (of_char (digit_char d) :: nat) - 48 = d"
proof -
  assume "d < 10"
  then consider "d = 0" | "d = 1" | "d = 2" | "d = 3" | "d = 4" | "d = 5" | "d = 6" | "d = 7" | "d = 8" | "d = 9"
    by (auto simp: less_Suc_eq numeral_eq_Suc)
  then show ?thesis
    by cases (simp_all add: digit_char_def)
qed

lemma digits_value_str_nat: "digits_value (str_nat n) = n"
proof (induction n rule: str_nat.induct)
  case (1 n)
  show ?case
  proof (cases "n < 10")
    case True
    then show ?thesis
      by (subst str_nat.simps) (simp add: digits_value_def digit_char_value)
  next
    case False
    have "digits_value (str_nat n) = 10 * digits_value (str_nat (n div 10)) + (n mod 10)"
      using False by (subst str_nat.simps) (simp add: digits_value_def digit_char_value)
    with "1.IH"[OF False] show ?thesis by simp
  qed
qed

lemma str_nat_inj: "str_nat m = str_nat n \<Longrightarrow> m = n"
  by (metis digits_value_str_nat)

subsection \<open>The sample inputs, evaluated\<close>

lemma set_listing_remdups: "set_listing remdups"
  by (simp add: set_listing_def)

lemma str_nat_small:
  "str_nat (Suc 0) = ''1''" "str_nat (Suc (Suc 0)) = ''2''" "str_nat (Suc (Suc (Suc 0))) = ''3''"
  "str_nat 1 = ''1''" "str_nat 2 = ''2''" "str_nat 3 = ''3''"
  by (simp_all add: str_nat.simps digit_char_def)

lemmas eval_defs = aggregate_insights aggregate_state split_beta
  aggregate_group_def sample_raw_def data_of_def get_or_def empty_data_def Let_def
  aggregate_severity_def severity_score_def sort_insights_def sort_key_of_def
  category_priority_def severity_weights_def default_settings_def py_prefix_def
  should_be_alert_def alert_key_def str_nat_small

lemma default_settings_flags:
  "generate_recommendations default_settings"
  "max_recommendations_per_round default_settings = 5"
  "max_insights_per_batch default_settings = 10"
  "min_confidence_threshold default_settings = 7 / 10"
  by (simp_all add: default_settings_def)

lemma aggregate_recommendations:
  "recommendations (fst (aggregate ls cfg now rid st))
     = (if generate_recommendations cfg
        then generate_recommendations_list cfg (insights (fst (aggregate ls cfg now rid st)))
        else [])"
  by (simp add: aggregate_def Let_def split_beta empty_batch_def
      generate_recommendations_list_def py_prefix_Nil)

lemma scenario_r1_buffer:
  "insight_buffer scenario_r1 ''r1'' = Some
     [(sample_raw ''fraud-detection'' ''multiple_faces'' (9 / 10))\<lparr>received_at := Some 0\<rparr>,
      (sample_raw ''video-analysis'' ''multiple_faces'' (95 / 100))\<lparr>received_at := Some 0\<rparr>,
      (sample_raw ''speech-analysis'' ''low_confidence'' (4 / 10))\<lparr>received_at := Some 0\<rparr>]"
  "recent_alerts scenario_r1 = Map.empty" "insight_counter scenario_r1 = 0"
  by (simp_all add: scenario_r1_def add_insight_def cleanup_buffer_def buffer_of_def get_or_def
      init_def default_settings_def Let_def)

lemma scenario_r1_groups:
  "group_insights (buffer_of scenario_r1 ''r1'') =
     [((''fraud'', ''multiple_faces''),
         [(sample_raw ''fraud-detection'' ''multiple_faces'' (9 / 10))\<lparr>received_at := Some 0\<rparr>]),
      ((''video'', ''multiple_faces''),
         [(sample_raw ''video-analysis'' ''multiple_faces'' (95 / 100))\<lparr>received_at := Some 0\<rparr>]),
      ((''speech'', ''low_confidence''),
         [(sample_raw ''speech-analysis'' ''low_confidence'' (4 / 10))\<lparr>received_at := Some 0\<rparr>])]"
  by (simp add: buffer_of_def scenario_r1_buffer get_or_def group_insights_def group_key_def
      source_to_category_def sample_raw_def Let_def)

lemma scenario_r1_eval:
  assumes "set_listing ls"
  shows "map (\<lambda>i. (insight_id i, category i, insight_type i, confidence i, severity i, is_alert i))
           (insights (fst (aggregate ls default_settings now ''r1'' scenario_r1)))
         = [(''r1-1'', ''fraud'', ''multiple_faces'', 9 / 10, ''low'', True),
            (''r1-2'', ''video'', ''multiple_faces'', 19 / 20, ''low'', False)]"
    and "map rec_type (recommendations (fst (aggregate ls default_settings now ''r1'' scenario_r1)))
         = [''action'']"
    and "map (\<lambda>i. (category i, insight_type i, confidence i))
           (fst (score_groups ls now ''r1'' (group_insights (buffer_of scenario_r1 ''r1'')) scenario_r1))
         = [(''fraud'', ''multiple_faces'', 9 / 10), (''video'', ''multiple_faces'', 19 / 20),
            (''speech'', ''low_confidence'', 4 / 10)]"
proof -
  have l: "length (ls xs) = card (set xs)" for xs
    by (rule set_listing_length[OF assms])
  show "map (\<lambda>i. (insight_id i, category i, insight_type i, confidence i, severity i, is_alert i))
           (insights (fst (aggregate ls default_settings now ''r1'' scenario_r1)))
         = [(''r1-1'', ''fraud'', ''multiple_faces'', 9 / 10, ''low'', True),
            (''r1-2'', ''video'', ''multiple_faces'', 19 / 20, ''low'', False)]"
    by (simp add: aggregate_insights scenario_r1_groups scenario_r1_buffer split_beta l
        aggregate_group_def sample_raw_def data_of_def get_or_def empty_data_def Let_def
        aggregate_severity_def severity_score_def sort_insights_def sort_key_of_def
        category_priority_def severity_weights_def default_settings_def py_prefix_def
        should_be_alert_def alert_key_def str_nat_small)
  then obtain x1 x2 where x: "insights (fst (aggregate ls default_settings now ''r1'' scenario_r1)) = [x1, x2]"
    "category x1 = ''fraud''" "is_alert x1" "\<not> is_alert x2"
    by (auto simp: map_eq_Cons_conv)
  show "map rec_type (recommendations (fst (aggregate ls default_settings now ''r1'' scenario_r1)))
         = [''action'']"
    using default_settings_flags
    by (simp add: aggregate_recommendations x generate_recommendations_list_def recommend_def
        py_prefix_def)
  show "map (\<lambda>i. (category i, insight_type i, confidence i))
           (fst (score_groups ls now ''r1'' (group_insights (buffer_of scenario_r1 ''r1'')) scenario_r1))
         = [(''fraud'', ''multiple_faces'', 9 / 10), (''video'', ''multiple_faces'', 19 / 20),
            (''speech'', ''low_confidence'', 4 / 10)]"
    by (simp add: scenario_r1_groups split_beta l
        aggregate_group_def sample_raw_def data_of_def get_or_def empty_data_def Let_def)
qed

lemma two_rounds_buffer:
  "insight_buffer two_rounds = [''a'' \<mapsto>
       [(sample_raw ''fraud-detection'' ''face_switch'' (9 / 10))\<lparr>received_at := Some 0\<rparr>],
     ''b'' \<mapsto>
       [(sample_raw ''fraud-detection'' ''face_switch'' (9 / 10))\<lparr>received_at := Some 0\<rparr>]]"
  "recent_alerts two_rounds = Map.empty" "insight_counter two_rounds = 0"
  by (simp_all add: two_rounds_def add_insight_def cleanup_buffer_def buffer_of_def get_or_def
      init_def default_settings_def Let_def)

lemma two_rounds_groups:
  "group_insights (buffer_of two_rounds ''a'') =
     [((''fraud'', ''face_switch''),
         [(sample_raw ''fraud-detection'' ''face_switch'' (9 / 10))\<lparr>received_at := Some 0\<rparr>])]"
  "group_insights (buffer_of two_rounds ''b'') =
     [((''fraud'', ''face_switch''),
         [(sample_raw ''fraud-detection'' ''face_switch'' (9 / 10))\<lparr>received_at := Some 0\<rparr>])]"
  by (simp_all add: buffer_of_def two_rounds_buffer get_or_def group_insights_def group_key_def
      source_to_category_def sample_raw_def Let_def)

lemma two_rounds_after_a:
  "snd (aggregate remdups default_settings 0 ''a'' two_rounds)
     = two_rounds\<lparr>recent_alerts := [''a:fraud:face_switch'' \<mapsto> 0], insight_counter := 1\<rparr>"
  by (simp add: eval_defs two_rounds_groups two_rounds_buffer)

lemma two_rounds_after_a_groups:
  "group_insights (buffer_of (snd (aggregate remdups default_settings 0 ''a'' two_rounds)) ''a'') =
     [((''fraud'', ''face_switch''),
         [(sample_raw ''fraud-detection'' ''face_switch'' (9 / 10))\<lparr>received_at := Some 0\<rparr>])]"
  "group_insights (buffer_of (snd (aggregate remdups default_settings 0 ''a'' two_rounds)) ''b'') =
     [((''fraud'', ''face_switch''),
         [(sample_raw ''fraud-detection'' ''face_switch'' (9 / 10))\<lparr>received_at := Some 0\<rparr>])]"
  using two_rounds_groups by (simp_all add: buffer_of_def aggregate_buffer)

lemma two_rounds_eval:
  "map (\<lambda>i. (insight_id i, is_alert i))
       (insights (fst (aggregate remdups default_settings 0 ''a'' two_rounds))) = [(''a-1'', True)]"
  "map (\<lambda>i. (insight_id i, is_alert i))
       (insights (fst (aggregate remdups default_settings 0 ''b'' two_rounds))) = [(''b-1'', True)]"
  "map (\<lambda>i. (insight_id i, is_alert i))
       (insights (fst (aggregate remdups default_settings 0 ''a''
          (snd (aggregate remdups default_settings 0 ''a'' two_rounds))))) = [(''a-2'', False)]"
  "map (\<lambda>i. (insight_id i, is_alert i))
       (insights (fst (aggregate remdups default_settings 0 ''b''
          (snd (aggregate remdups default_settings 0 ''a'' two_rounds))))) = [(''b-2'', True)]"
     apply (simp add: eval_defs two_rounds_groups two_rounds_buffer)
    apply (simp add: eval_defs two_rounds_groups two_rounds_buffer)
   apply (simp add: aggregate_insights two_rounds_after_a_groups)
   apply (simp add: two_rounds_after_a)
   apply (simp add: eval_defs two_rounds_buffer)
  apply (simp add: aggregate_insights two_rounds_after_a_groups)
  apply (simp add: two_rounds_after_a)
  apply (simp add: eval_defs two_rounds_buffer)
  done

lemma low_confidence_only_groups:
  "group_insights (buffer_of low_confidence_only ''r1'') =
     [((''speech'', ''low_confidence''),
         [(sample_raw ''speech-analysis'' ''low_confidence'' (4 / 10))\<lparr>received_at := Some 0\<rparr>])]"
  by (simp add: low_confidence_only_def add_insight_def cleanup_buffer_def buffer_of_def get_or_def
      init_def default_settings_def group_insights_def group_key_def
      source_to_category_def sample_raw_def Let_def)

subsection \<open>Scoring a group\<close>

text \<open>
  C4. Every group that is not empty yields an aggregated insight and takes one number
  from the counter. With the reported confidences (0.5 where a record has none) summing
  to \<open>C\<close> over \<open>N\<close> records, the insight's confidence is \<open>C / N\<close> when the records name
  one source, and \<open>min 1 (C / N * 1.1)\<close> when they name more than one. It lies between
  0 and 1 whenever every reported confidence does.
\<close>

theorem group_confidence:
  "set_listing list_set \<and> ins \<noteq> []
   \<longrightarrow> (\<exists>a. aggregate_group list_set now rid cat ity ins st
               = (Some a, st\<lparr>insight_counter := insight_counter st + 1\<rparr>)
         \<and> (card (set (map (\<lambda>i. get_or (r_source i) ''unknown'') ins)) = 1
              \<longrightarrow> confidence a
                    = sum_list (map (\<lambda>i. get_or (d_confidence (data_of i)) (1 / 2)) ins)
                        / of_nat (length ins))
         \<and> (card (set (map (\<lambda>i. get_or (r_source i) ''unknown'') ins)) > 1
              \<longrightarrow> confidence a
                    = min 1 (sum_list (map (\<lambda>i. get_or (d_confidence (data_of i)) (1 / 2)) ins)
                               / of_nat (length ins) * (11 / 10)))
         \<and> ((\<forall>i \<in> set ins. 0 \<le> get_or (d_confidence (data_of i)) (1 / 2)
                             \<and> get_or (d_confidence (data_of i)) (1 / 2) \<le> 1)
              \<longrightarrow> 0 \<le> confidence a \<and> confidence a \<le> 1))"
proof (intro impI, elim conjE)
  assume sl: "set_listing list_set" and ne: "ins \<noteq> []"
  let ?c = "\<lambda>i. get_or (d_confidence (data_of i)) (1 / 2)"
  let ?mean = "sum_list (map ?c ins) / of_nat (length ins)"
  let ?n = "card (set (map (\<lambda>i. get_or (r_source i) ''unknown'') ins))"
  from aggregate_group_nonempty[OF ne] obtain a where
    ag: "aggregate_group list_set now rid cat ity ins st
           = (Some a, st\<lparr>insight_counter := insight_counter st + 1\<rparr>)"
    by blast
  have conf: "confidence a = (if ?n > 1 then min 1 (?mean * (11 / 10)) else ?mean)"
    using aggregate_group_Some(4)[OF ag] set_listing_length[OF sl] by simp
  have bounds: "0 \<le> confidence a \<and> confidence a \<le> 1"
    if "\<forall>i \<in> set ins. 0 \<le> ?c i \<and> ?c i \<le> 1"
  proof -
    have m: "0 \<le> ?mean" "?mean \<le> 1" using mean_in_unit[OF ne that] by auto
    then have "0 \<le> ?mean * (11 / 10)" by simp
    with m conf show ?thesis by (auto simp: min_def)
  qed
  have "aggregate_group list_set now rid cat ity ins st
               = (Some a, st\<lparr>insight_counter := insight_counter st + 1\<rparr>)
       \<and> (?n = 1 \<longrightarrow> confidence a = ?mean)
       \<and> (?n > 1 \<longrightarrow> confidence a = min 1 (?mean * (11 / 10)))
       \<and> ((\<forall>i \<in> set ins. 0 \<le> ?c i \<and> ?c i \<le> 1) \<longrightarrow> 0 \<le> confidence a \<and> confidence a \<le> 1)"
    using ag conf bounds by simp
  then show "\<exists>a. aggregate_group list_set now rid cat ity ins st
               = (Some a, st\<lparr>insight_counter := insight_counter st + 1\<rparr>)
       \<and> (?n = 1 \<longrightarrow> confidence a = ?mean)
       \<and> (?n > 1 \<longrightarrow> confidence a = min 1 (?mean * (11 / 10)))
       \<and> ((\<forall>i \<in> set ins. 0 \<le> ?c i \<and> ?c i \<le> 1) \<longrightarrow> 0 \<le> confidence a \<and> confidence a \<le> 1)"
    by (rule exI)
qed

theorem group_confidence_witness:
  "set_listing remdups
   \<and> sample_three_sources \<noteq> []
   \<and> card (set (map (\<lambda>i. get_or (r_source i) ''unknown'') sample_three_sources)) > 1
   \<and> map (\<lambda>i. get_or (d_confidence (data_of i)) (1 / 2)) sample_three_sources
       = [6 / 10, 9 / 10, 9 / 10]
   \<and> fst (aggregate_group remdups 0 ''r1'' ''other'' ''gaze'' sample_three_sources init) \<noteq> None
   \<and> confidence (the (fst (aggregate_group remdups 0 ''r1'' ''other'' ''gaze''
        sample_three_sources init))) = 88 / 100
   \<and> sample_one_source \<noteq> []
   \<and> card (set (map (\<lambda>i. get_or (r_source i) ''unknown'') sample_one_source)) = 1
   \<and> fst (aggregate_group remdups 0 ''r1'' ''fraud'' ''face_switch'' sample_one_source init) \<noteq> None
   \<and> confidence (the (fst (aggregate_group remdups 0 ''r1'' ''fraud'' ''face_switch''
        sample_one_source init))) = 8 / 10"
proof -
  have sl: "set_listing remdups" by (simp add: set_listing_def)
  have ne3: "sample_three_sources \<noteq> []" by (simp add: sample_three_sources_def)
  have ne1: "sample_one_source \<noteq> []" by (simp add: sample_one_source_def)
  have c3: "card (set (map (\<lambda>i. get_or (r_source i) ''unknown'') sample_three_sources)) > 1"
    unfolding length_remdups_card_conv[symmetric]
    by (simp add: sample_three_sources_def sample_raw_def get_or_def)
  have c1: "card (set (map (\<lambda>i. get_or (r_source i) ''unknown'') sample_one_source)) = 1"
    unfolding length_remdups_card_conv[symmetric]
    by (simp add: sample_one_source_def sample_raw_def get_or_def)
  have v3: "map (\<lambda>i. get_or (d_confidence (data_of i)) (1 / 2)) sample_three_sources
       = [6 / 10, 9 / 10, 9 / 10]"
    by (simp add: sample_three_sources_def sample_raw_def get_or_def data_of_def empty_data_def)
  have v1: "map (\<lambda>i. get_or (d_confidence (data_of i)) (1 / 2)) sample_one_source
       = [9 / 10, 8 / 10, 7 / 10]"
    by (simp add: sample_one_source_def sample_raw_def get_or_def data_of_def empty_data_def)
  have l3: "length sample_three_sources = 3" by (simp add: sample_three_sources_def)
  have l1: "length sample_one_source = 3" by (simp add: sample_one_source_def)
  from group_confidence [of remdups sample_three_sources 0 "''r1''" "''other''" "''gaze''" init]
    sl ne3 c3
  obtain a where a: "aggregate_group remdups 0 ''r1'' ''other'' ''gaze'' sample_three_sources init
      = (Some a, init\<lparr>insight_counter := insight_counter init + 1\<rparr>)"
    "confidence a
       = min 1 (sum_list (map (\<lambda>i. get_or (d_confidence (data_of i)) (1 / 2)) sample_three_sources)
                  / of_nat (length sample_three_sources) * (11 / 10))"
    by blast
  from group_confidence [of remdups sample_one_source 0 "''r1''" "''fraud''" "''face_switch''" init]
    sl ne1 c1
  obtain b where b: "aggregate_group remdups 0 ''r1'' ''fraud'' ''face_switch'' sample_one_source init
      = (Some b, init\<lparr>insight_counter := insight_counter init + 1\<rparr>)"
    "confidence b
       = sum_list (map (\<lambda>i. get_or (d_confidence (data_of i)) (1 / 2)) sample_one_source)
                  / of_nat (length sample_one_source)"
    by blast
  have ca: "confidence a = 88 / 100" unfolding a(2) v3 l3 by simp
  have cb: "confidence b = 8 / 10" unfolding b(2) v1 l1 by simp
  show ?thesis
    using sl ne3 ne1 c3 c1 v3 ca cb by (simp add: a(1) b(1))
qed

text \<open>
  C4 as stated fails where it bounds the result for every group: nothing clamps the mean
  of one source's reports, so a reported confidence of 1.5 comes out as 1.5.
\<close>

theorem unclamped_confidence_counterexample:
  "confidence (the (fst (aggregate_group remdups 0 ''r1'' ''fraud'' ''face_switch''
       [sample_raw ''fraud-detection'' ''face_switch'' (3 / 2)] init))) = 3 / 2
   \<and> \<not> (3 / 2 :: rat) \<le> 1"
  by (simp add: aggregate_group_def sample_raw_def data_of_def get_or_def empty_data_def Let_def)

text \<open>
  C7. Every group that is not empty yields an aggregated insight whose evidence has at
  most 5 entries and whose follow-up questions at most 3; neither list repeats a string,
  and both are taken from what the group's records carry. A group that contributes 8
  distinct evidence strings yields exactly 5.
\<close>

theorem group_caps:
  "set_listing list_set \<and> ins \<noteq> []
   \<longrightarrow> (\<exists>a. aggregate_group list_set now rid cat ity ins st
               = (Some a, st\<lparr>insight_counter := insight_counter st + 1\<rparr>)
         \<and> length (evidence a) \<le> 5 \<and> length (followup_questions a) \<le> 3
         \<and> distinct (evidence a) \<and> distinct (followup_questions a)
         \<and> set (evidence a) \<subseteq> set (collect_evidence ins)
         \<and> set (followup_questions a) \<subseteq> set (collect_followups ins)
         \<and> length (evidence a) = min 5 (card (set (collect_evidence ins)))
         \<and> length (followup_questions a) = min 3 (card (set (collect_followups ins)))
         \<and> (card (set (collect_evidence ins)) = 8 \<longrightarrow> length (evidence a) = 5))"
proof (intro impI, elim conjE)
  assume sl: "set_listing list_set" and ne: "ins \<noteq> []"
  from aggregate_group_nonempty[OF ne] obtain a where
    ag: "aggregate_group list_set now rid cat ity ins st
           = (Some a, st\<lparr>insight_counter := insight_counter st + 1\<rparr>)"
    by blast
  have ev: "evidence a = take 5 (list_set (collect_evidence ins))"
    and fq: "followup_questions a = take 3 (list_set (collect_followups ins))"
    using aggregate_group_Some[OF ag] by simp_all
  have d: "distinct (list_set xs)" and s: "set (list_set xs) = set xs" for xs
    using sl by (simp_all add: set_listing_def)
  have l: "length (list_set xs) = card (set xs)" for xs
    by (rule set_listing_length[OF sl])
  have "length (evidence a) \<le> 5 \<and> length (followup_questions a) \<le> 3
       \<and> distinct (evidence a) \<and> distinct (followup_questions a)
       \<and> set (evidence a) \<subseteq> set (collect_evidence ins)
       \<and> set (followup_questions a) \<subseteq> set (collect_followups ins)
       \<and> length (evidence a) = min 5 (card (set (collect_evidence ins)))
       \<and> length (followup_questions a) = min 3 (card (set (collect_followups ins)))
       \<and> (card (set (collect_evidence ins)) = 8 \<longrightarrow> length (evidence a) = 5)"
    using set_take_subset[of 5 "list_set (collect_evidence ins)"]
      set_take_subset[of 3 "list_set (collect_followups ins)"]
    by (simp add: ev fq d l s min.commute)
  with ag show "\<exists>a. aggregate_group list_set now rid cat ity ins st
               = (Some a, st\<lparr>insight_counter := insight_counter st + 1\<rparr>)
         \<and> length (evidence a) \<le> 5 \<and> length (followup_questions a) \<le> 3
         \<and> distinct (evidence a) \<and> distinct (followup_questions a)
         \<and> set (evidence a) \<subseteq> set (collect_evidence ins)
         \<and> set (followup_questions a) \<subseteq> set (collect_followups ins)
         \<and> length (evidence a) = min 5 (card (set (collect_evidence ins)))
         \<and> length (followup_questions a) = min 3 (card (set (collect_followups ins)))
         \<and> (card (set (collect_evidence ins)) = 8 \<longrightarrow> length (evidence a) = 5)"
    by blast
qed

theorem group_caps_witness:
  "set_listing remdups
   \<and> sample_evidence8 \<noteq> []
   \<and> length sample_evidence8 = 3
   \<and> card (set (collect_evidence sample_evidence8)) = 8
   \<and> fst (aggregate_group remdups 0 ''r1'' ''contradiction'' ''contradiction''
        sample_evidence8 init) \<noteq> None
   \<and> length (evidence (the (fst (aggregate_group remdups 0 ''r1'' ''contradiction''
        ''contradiction'' sample_evidence8 init)))) = 5
   \<and> length (followup_questions (the (fst (aggregate_group remdups 0 ''r1'' ''contradiction''
        ''contradiction'' sample_evidence8 init)))) = 3"
proof -
  have sl: "set_listing remdups" by (simp add: set_listing_def)
  have ne: "sample_evidence8 \<noteq> []" and len: "length sample_evidence8 = 3"
    by (simp_all add: sample_evidence8_def)
  have c8: "card (set (collect_evidence sample_evidence8)) = 8"
    unfolding length_remdups_card_conv[symmetric]
    by (simp add: sample_evidence8_def collect_evidence_def data_of_def get_or_def Let_def)
  have c4: "card (set (collect_followups sample_evidence8)) = 4"
    unfolding length_remdups_card_conv[symmetric]
    by (simp add: sample_evidence8_def collect_followups_def data_of_def get_or_def Let_def)
  from group_caps [of remdups sample_evidence8 0 "''r1''" "''contradiction''" "''contradiction''" init]
    sl ne c8
  obtain a where a: "aggregate_group remdups 0 ''r1'' ''contradiction'' ''contradiction''
        sample_evidence8 init = (Some a, init\<lparr>insight_counter := insight_counter init + 1\<rparr>)"
    "length (evidence a) = 5"
    "length (followup_questions a) = min 3 (card (set (collect_followups sample_evidence8)))"
    by blast
  show ?thesis
    using sl ne len c8 a(2) a(3) c4 by (simp add: a(1))
qed

subsection \<open>The batch\<close>

text \<open>
  C9. \<^verbatim>\<open>aggregate\<close> on a round with no buffered record returns the empty batch (no
  insights, no recommendations, \<^verbatim>\<open>total_insights\<close> 0) and leaves the aggregator as it
  is; when every scored group is below \<^verbatim>\<open>min_confidence_threshold\<close> the batch likewise
  has no insights, no recommendations and \<^verbatim>\<open>total_insights\<close> 0. The function has no
  failing branch: its two divisions are by the length of a list just tested non-empty.
\<close>

theorem empty_aggregation:
  "(buffer_of st rid = []
      \<longrightarrow> aggregate list_set cfg now rid st = (empty_batch now rid, st)
          \<and> insights (empty_batch now rid) = []
          \<and> recommendations (empty_batch now rid) = []
          \<and> total_insights (batch_summary (empty_batch now rid)) = 0)
   \<and> ((\<forall>a \<in> set (fst (score_groups list_set now rid (group_insights (buffer_of st rid)) st)).
          confidence a < min_confidence_threshold cfg)
      \<longrightarrow> insights (fst (aggregate list_set cfg now rid st)) = []
          \<and> recommendations (fst (aggregate list_set cfg now rid st)) = []
          \<and> total_insights (batch_summary (fst (aggregate list_set cfg now rid st))) = 0)"
proof (intro conjI impI)
  assume "buffer_of st rid = []"
  then show "aggregate list_set cfg now rid st = (empty_batch now rid, st)"
    by (simp add: aggregate_def buffer_of_def)
next
  assume low: "\<forall>a \<in> set (fst (score_groups list_set now rid (group_insights (buffer_of st rid)) st)).
          confidence a < min_confidence_threshold cfg"
  then have "filter (\<lambda>i. confidence i \<ge> min_confidence_threshold cfg)
     (fst (score_groups list_set now rid (group_insights (buffer_of st rid)) st)) = []"
    by (auto simp: filter_empty_conv)
  then have e: "insights (fst (aggregate list_set cfg now rid st)) = []"
    by (simp add: aggregate_insights sort_insights_def py_prefix_Nil)
  then show "insights (fst (aggregate list_set cfg now rid st)) = []" .
  from aggregate_recommendations_empty[OF e]
  show "recommendations (fst (aggregate list_set cfg now rid st)) = []"
    and "total_insights (batch_summary (fst (aggregate list_set cfg now rid st))) = 0"
    by simp_all
qed (simp_all add: empty_batch_def)

theorem empty_aggregation_witness:
  "buffer_of init ''r1'' = []
   \<and> aggregate remdups default_settings 0 ''r1'' init = (empty_batch 0 ''r1'', init)
   \<and> buffer_of low_confidence_only ''r1'' \<noteq> []
   \<and> map confidence (fst (score_groups remdups 0 ''r1''
          (group_insights (buffer_of low_confidence_only ''r1'')) low_confidence_only)) = [4 / 10]
   \<and> (4 / 10 :: rat) < min_confidence_threshold default_settings
   \<and> insights (fst (aggregate remdups default_settings 0 ''r1'' low_confidence_only)) = []
   \<and> total_insights (batch_summary (fst (aggregate remdups default_settings 0 ''r1''
          low_confidence_only))) = 0"
proof -
  have e: "buffer_of init ''r1'' = []"
    by (simp add: buffer_of_def init_def get_or_def)
  have ne: "buffer_of low_confidence_only ''r1'' \<noteq> []"
    using low_confidence_only_groups by (auto simp: group_insights_Nil)
  have low: "\<forall>a \<in> set (fst (score_groups remdups 0 ''r1''
          (group_insights (buffer_of low_confidence_only ''r1'')) low_confidence_only)).
          confidence a < min_confidence_threshold default_settings"
    by (simp add: low_confidence_only_groups split_beta aggregate_group_def sample_raw_def
        data_of_def get_or_def empty_data_def Let_def default_settings_def)
  have sc: "map confidence (fst (score_groups remdups 0 ''r1''
          (group_insights (buffer_of low_confidence_only ''r1'')) low_confidence_only)) = [4 / 10]"
    by (simp add: low_confidence_only_groups split_beta aggregate_group_def sample_raw_def
        data_of_def get_or_def empty_data_def Let_def)
  have thr: "(4 / 10 :: rat) < min_confidence_threshold default_settings"
    by (simp add: default_settings_def)
  show ?thesis
    using empty_aggregation [where st = init and rid = "''r1''" and list_set = remdups
        and cfg = default_settings and now = 0]
      empty_aggregation [where st = low_confidence_only and rid = "''r1''" and list_set = remdups
        and cfg = default_settings and now = 0]
      e ne low sc thr
    by blast
qed

text \<open>
  C8. The insights of a batch, alert flags aside, are the first
  \<^verbatim>\<open>max_insights_per_batch\<close> of the stable sort of the scored groups that reach the
  confidence threshold: the sort key rises along the list, groups with equal keys keep
  the order in which the groups were scored, and with a cap that is not negative the
  batch has at most that many insights. Keys compare by category priority (fraud 1,
  contradiction 2, speech 3, video 4, any other 99) ascending, then confidence
  descending, then severity weight (high 3, medium 2, low 1) descending.
\<close>

theorem batch_order:
  "map (\<lambda>i. i\<lparr>is_alert := False\<rparr>) (insights (fst (aggregate list_set cfg now rid st)))
     = py_prefix (max_insights_per_batch cfg)
         (sort_insights (filter (\<lambda>i. confidence i \<ge> min_confidence_threshold cfg)
            (fst (score_groups list_set now rid (group_insights (buffer_of st rid)) st))))
   \<and> sorted (map sort_key_of
         (sort_insights (filter (\<lambda>i. confidence i \<ge> min_confidence_threshold cfg)
            (fst (score_groups list_set now rid (group_insights (buffer_of st rid)) st)))))
   \<and> filter (\<lambda>i. sort_key_of i = k)
         (sort_insights (filter (\<lambda>i. confidence i \<ge> min_confidence_threshold cfg)
            (fst (score_groups list_set now rid (group_insights (buffer_of st rid)) st))))
       = filter (\<lambda>i. sort_key_of i = k)
           (filter (\<lambda>i. confidence i \<ge> min_confidence_threshold cfg)
              (fst (score_groups list_set now rid (group_insights (buffer_of st rid)) st)))
   \<and> sorted (map sort_key_of (insights (fst (aggregate list_set cfg now rid st))))
   \<and> (0 \<le> max_insights_per_batch cfg
        \<longrightarrow> length (insights (fst (aggregate list_set cfg now rid st)))
              \<le> nat (max_insights_per_batch cfg))
   \<and> (sort_key_of x \<le> sort_key_of y
        \<longleftrightarrow> category_priority (category x) < category_priority (category y)
            \<or> category_priority (category x) = category_priority (category y)
              \<and> (confidence x > confidence y
                  \<or> confidence x = confidence y
                    \<and> severity_weights (severity x) \<ge> severity_weights (severity y)))
   \<and> category_priority ''fraud'' = 1 \<and> category_priority ''contradiction'' = 2
   \<and> category_priority ''speech'' = 3 \<and> category_priority ''video'' = 4
   \<and> (c \<notin> {''fraud'', ''contradiction'', ''speech'', ''video''} \<longrightarrow> category_priority c = 99)
   \<and> severity_weights ''high'' = 3 \<and> severity_weights ''medium'' = 2
   \<and> severity_weights ''low'' = 1"
proof -
  let ?cands = "filter (\<lambda>i. confidence i \<ge> min_confidence_threshold cfg)
            (fst (score_groups list_set now rid (group_insights (buffer_of st rid)) st))"
  let ?lim = "py_prefix (max_insights_per_batch cfg) (sort_insights ?cands)"
  let ?out = "insights (fst (aggregate list_set cfg now rid st))"
  have "\<forall>a \<in> set ?lim. \<not> is_alert a"
    using set_py_prefix[of "max_insights_per_batch cfg" "sort_insights ?cands"]
    by (auto simp: sort_insights_def dest: score_groups_no_alert)
  then have "map (\<lambda>i. i\<lparr>is_alert := False\<rparr>) ?lim = ?lim"
    by (rule unmark_id)
  then have unmark: "map (\<lambda>i. i\<lparr>is_alert := False\<rparr>) ?out = ?lim"
    by (simp add: aggregate_insights mark_alerts_unmark)
  have srt: "sorted (map sort_key_of (sort_insights ?cands))"
    by (simp add: sort_insights_def)
  have stable: "filter (\<lambda>i. sort_key_of i = k) (sort_insights ?cands)
       = filter (\<lambda>i. sort_key_of i = k) ?cands"
    unfolding sort_insights_def by (rule sort_key_stable)
  obtain n where n: "?lim = take n (sort_insights ?cands)"
    using py_prefix_take by blast
  have "map sort_key_of ?out = map sort_key_of (map (\<lambda>i. i\<lparr>is_alert := False\<rparr>) ?out)"
    by (simp add: sort_key_of_unmark)
  also have "\<dots> = take n (map sort_key_of (sort_insights ?cands))"
    by (simp add: unmark n take_map)
  finally have out_sorted: "sorted (map sort_key_of ?out)"
    using srt by (simp add: sorted_wrt_take)
  have len: "length ?out \<le> nat (max_insights_per_batch cfg)" if "0 \<le> max_insights_per_batch cfg"
  proof -
    have "length ?out = length (map (\<lambda>i. i\<lparr>is_alert := False\<rparr>) ?out)" by simp
    also have "\<dots> = length ?lim" by (simp only: unmark)
    finally show ?thesis using length_py_prefix[OF that] by simp
  qed
  have key: "sort_key_of x \<le> sort_key_of y
        \<longleftrightarrow> category_priority (category x) < category_priority (category y)
            \<or> category_priority (category x) = category_priority (category y)
              \<and> (confidence x > confidence y
                  \<or> confidence x = confidence y
                    \<and> severity_weights (severity x) \<ge> severity_weights (severity y))"
    by (auto simp: sort_key_of_def less_eq_prod_def)
  have prio: "category_priority ''fraud'' = 1" "category_priority ''contradiction'' = 2"
    "category_priority ''speech'' = 3" "category_priority ''video'' = 4"
    "c \<notin> {''fraud'', ''contradiction'', ''speech'', ''video''} \<longrightarrow> category_priority c = 99"
    "severity_weights ''high'' = 3" "severity_weights ''medium'' = 2" "severity_weights ''low'' = 1"
    by (simp_all add: category_priority_def severity_weights_def get_or_def)
  show ?thesis
    using unmark srt stable out_sorted len key prio by blast
qed

theorem batch_order_witness:
  "0 \<le> max_insights_per_batch default_settings
   \<and> length (insights (fst (aggregate remdups default_settings 0 ''r1'' scenario_r1)))
       \<le> nat (max_insights_per_batch default_settings)
   \<and> map (\<lambda>i. (category i, confidence i))
        (insights (fst (aggregate remdups default_settings 0 ''r1'' scenario_r1)))
       = [(''fraud'', 9 / 10), (''video'', 19 / 20)]
   \<and> ''other'' \<notin> {''fraud'', ''contradiction'', ''speech'', ''video''}
   \<and> category_priority ''other'' = 99"
proof -
  note bo = batch_order [where list_set = remdups and cfg = default_settings and now = 0
      and rid = "''r1''" and st = scenario_r1 and c = "''other''"]
  have h: "0 \<le> max_insights_per_batch default_settings"
    by (simp add: default_settings_def)
  have o: "''other'' \<notin> {''fraud'', ''contradiction'', ''speech'', ''video''}"
    by simp
  have len: "length (insights (fst (aggregate remdups default_settings 0 ''r1'' scenario_r1)))
       \<le> nat (max_insights_per_batch default_settings)"
    using bo [THEN conjunct2, THEN conjunct2, THEN conjunct2, THEN conjunct2, THEN conjunct1] h
    by (rule mp)
  have prio: "category_priority ''other'' = 99"
    using bo [THEN conjunct2, THEN conjunct2, THEN conjunct2, THEN conjunct2, THEN conjunct2,
        THEN conjunct2, THEN conjunct2, THEN conjunct2, THEN conjunct2, THEN conjunct2,
        THEN conjunct1] o
    by (rule mp)
  have "map (\<lambda>i. (category i, confidence i))
        (insights (fst (aggregate remdups default_settings 0 ''r1'' scenario_r1)))
       = map (\<lambda>(i, c, t, cf, s, a). (c, cf))
          (map (\<lambda>i. (insight_id i, category i, insight_type i, confidence i, severity i, is_alert i))
           (insights (fst (aggregate remdups default_settings 0 ''r1'' scenario_r1))))"
    by simp
  also have "\<dots> = [(''fraud'', 9 / 10), (''video'', 19 / 20)]"
    by (simp only: scenario_r1_eval(1)[OF set_listing_remdups]) simp
  finally show ?thesis using h o len prio by simp
qed

text \<open>
  C2 (as the code has it). An insight id is the round id, a dash and the decimal value
  of one counter that all rounds share. Every scored group adds one to it: the group at
  position \<open>k\<close> of a call gets the counter's value before the call plus \<open>k + 1\<close>, every
  id in a batch carries a number above the counter before the call and at most the
  counter after it, adding and clearing leave the counter alone, and different numbers
  print differently. So the numbers of one round increase from call to call, but they
  do not restart at 1 for a round and they move with the aggregation of other rounds.
\<close>

theorem insight_id_counter:
  "(aggregate_group list_set now rid cat ity ins st = (Some a, st')
      \<longrightarrow> insight_id a = rid @ ''-'' @ str_nat (insight_counter st + 1)
          \<and> insight_counter st' = insight_counter st + 1)
   \<and> (k < length (fst (score_groups list_set now rid gs st))
      \<longrightarrow> insight_id (fst (score_groups list_set now rid gs st) ! k)
            = rid @ ''-'' @ str_nat (insight_counter st + k + 1))
   \<and> insight_counter (snd (aggregate list_set cfg now rid st))
       = insight_counter st
         + length (fst (score_groups list_set now rid (group_insights (buffer_of st rid)) st))
   \<and> (b \<in> set (insights (fst (aggregate list_set cfg now rid st)))
      \<longrightarrow> (\<exists>n. insight_counter st < n
               \<and> n \<le> insight_counter (snd (aggregate list_set cfg now rid st))
               \<and> insight_id b = rid @ ''-'' @ str_nat n))
   \<and> insight_counter (add_insight cfg now rid' r st) = insight_counter st
   \<and> insight_counter (clear_buffer rid' st) = insight_counter st
   \<and> (str_nat m = str_nat n \<longrightarrow> m = n)"
proof (intro conjI impI)
  assume ag: "aggregate_group list_set now rid cat ity ins st = (Some a, st')"
  show "insight_id a = rid @ ''-'' @ str_nat (insight_counter st + 1)"
    by (rule aggregate_group_Some(3)[OF ag])
  show "insight_counter st' = insight_counter st + 1"
    using aggregate_group_Some(2)[OF ag] by simp
next
  assume "k < length (fst (score_groups list_set now rid gs st))"
  then show "insight_id (fst (score_groups list_set now rid gs st) ! k)
            = rid @ ''-'' @ str_nat (insight_counter st + k + 1)"
    by (rule score_groups_nth_id)
next
  show "insight_counter (snd (aggregate list_set cfg now rid st))
       = insight_counter st
         + length (fst (score_groups list_set now rid (group_insights (buffer_of st rid)) st))"
    by (rule aggregate_counter)
next
  assume "b \<in> set (insights (fst (aggregate list_set cfg now rid st)))"
  then show "\<exists>n. insight_counter st < n
               \<and> n \<le> insight_counter (snd (aggregate list_set cfg now rid st))
               \<and> insight_id b = rid @ ''-'' @ str_nat n"
    by (rule aggregate_ids)
next
  show "insight_counter (add_insight cfg now rid' r st) = insight_counter st"
    by (simp add: add_insight_def cleanup_buffer_def Let_def)
  show "insight_counter (clear_buffer rid' st) = insight_counter st"
    by (simp add: clear_buffer_def)
next
  assume "str_nat m = str_nat n"
  then show "m = n" by (rule str_nat_inj)
qed

theorem insight_id_counter_witness:
  "aggregate_group remdups 0 ''b'' ''fraud'' ''face_switch''
       [sample_raw ''fraud-detection'' ''face_switch'' (9 / 10)] two_rounds
     = (Some (the (fst (aggregate_group remdups 0 ''b'' ''fraud'' ''face_switch''
                [sample_raw ''fraud-detection'' ''face_switch'' (9 / 10)] two_rounds))),
        snd (aggregate_group remdups 0 ''b'' ''fraud'' ''face_switch''
                [sample_raw ''fraud-detection'' ''face_switch'' (9 / 10)] two_rounds))
   \<and> insight_id (the (fst (aggregate_group remdups 0 ''b'' ''fraud'' ''face_switch''
                [sample_raw ''fraud-detection'' ''face_switch'' (9 / 10)] two_rounds))) = ''b-1''
   \<and> 0 < length (fst (score_groups remdups 0 ''b'' (group_insights (buffer_of two_rounds ''b''))
                    two_rounds))
   \<and> insight_id (fst (score_groups remdups 0 ''b'' (group_insights (buffer_of two_rounds ''b''))
                    two_rounds) ! 0) = ''b-1''
   \<and> hd (insights (fst (aggregate remdups default_settings 0 ''b'' two_rounds)))
       \<in> set (insights (fst (aggregate remdups default_settings 0 ''b'' two_rounds)))
   \<and> insight_counter (snd (aggregate remdups default_settings 0 ''b'' two_rounds)) = 1
   \<and> str_nat 1 = str_nat 1"
proof -
  note w = insight_id_counter [where list_set = remdups and now = 0 and rid = "''b''"
      and cat = "''fraud''" and ity = "''face_switch''"
      and ins = "[sample_raw ''fraud-detection'' ''face_switch'' (9 / 10)]" and st = two_rounds
      and a = "the (fst (aggregate_group remdups 0 ''b'' ''fraud'' ''face_switch''
                [sample_raw ''fraud-detection'' ''face_switch'' (9 / 10)] two_rounds))"
      and st' = "snd (aggregate_group remdups 0 ''b'' ''fraud'' ''face_switch''
                [sample_raw ''fraud-detection'' ''face_switch'' (9 / 10)] two_rounds)"
      and k = 0 and gs = "group_insights (buffer_of two_rounds ''b'')" and cfg = default_settings
      and b = "hd (insights (fst (aggregate remdups default_settings 0 ''b'' two_rounds)))"
      and m = 1 and n = 1]
  have ag: "aggregate_group remdups 0 ''b'' ''fraud'' ''face_switch''
       [sample_raw ''fraud-detection'' ''face_switch'' (9 / 10)] two_rounds
     = (Some (the (fst (aggregate_group remdups 0 ''b'' ''fraud'' ''face_switch''
                [sample_raw ''fraud-detection'' ''face_switch'' (9 / 10)] two_rounds))),
        snd (aggregate_group remdups 0 ''b'' ''fraud'' ''face_switch''
                [sample_raw ''fraud-detection'' ''face_switch'' (9 / 10)] two_rounds))"
    by (simp add: aggregate_group_def Let_def)
  have len: "0 < length (fst (score_groups remdups 0 ''b''
      (group_insights (buffer_of two_rounds ''b'')) two_rounds))"
    by (simp add: two_rounds_groups split_beta aggregate_group_def Let_def)
  have "insights (fst (aggregate remdups default_settings 0 ''b'' two_rounds)) \<noteq> []"
    using two_rounds_eval(2) by auto
  then have mem: "hd (insights (fst (aggregate remdups default_settings 0 ''b'' two_rounds)))
       \<in> set (insights (fst (aggregate remdups default_settings 0 ''b'' two_rounds)))"
    by simp
  have c0: "insight_counter two_rounds = 0" by (rule two_rounds_buffer(3))
  have len1: "length (fst (score_groups remdups 0 ''b''
      (group_insights (buffer_of two_rounds ''b'')) two_rounds)) = 1"
    by (simp add: two_rounds_groups split_beta aggregate_group_def Let_def)
  show ?thesis
    using w ag len mem c0 len1 by (simp add: str_nat_small)
qed

text \<open>
  C2 as stated fails: after round \<open>a\<close> was aggregated, the first id of round \<open>b\<close> is
  \<open>b-2\<close>, where it is \<open>b-1\<close> when round \<open>a\<close> was not.
\<close>

theorem session_counter_counterexample:
  "map insight_id (insights (fst (aggregate remdups default_settings 0 ''b''
       (snd (aggregate remdups default_settings 0 ''a'' two_rounds))))) = [''b-2'']
   \<and> map insight_id (insights (fst (aggregate remdups default_settings 0 ''b'' two_rounds)))
       = [''b-1'']"
proof -
  have "map insight_id (insights (fst (aggregate remdups default_settings 0 ''b''
       (snd (aggregate remdups default_settings 0 ''a'' two_rounds)))))
     = map fst (map (\<lambda>i. (insight_id i, is_alert i)) (insights (fst (aggregate remdups default_settings 0 ''b''
       (snd (aggregate remdups default_settings 0 ''a'' two_rounds))))))"
    by simp
  also have "\<dots> = [''b-2'']" by (simp only: two_rounds_eval(4)) simp
  finally have 1: "map insight_id (insights (fst (aggregate remdups default_settings 0 ''b''
       (snd (aggregate remdups default_settings 0 ''a'' two_rounds))))) = [''b-2'']" .
  have "map insight_id (insights (fst (aggregate remdups default_settings 0 ''b'' two_rounds)))
     = map fst (map (\<lambda>i. (insight_id i, is_alert i))
         (insights (fst (aggregate remdups default_settings 0 ''b'' two_rounds))))"
    by simp
  also have "\<dots> = [''b-1'']" by (simp only: two_rounds_eval(2)) simp
  finally show ?thesis using 1 by simp
qed

text \<open>
  C5 (as the code has it). \<^verbatim>\<open>aggregate\<close> does not change the buffer, and a second
  call right after the first returns the same insights in the same order in every field
  but three: the id (the counter has moved on), the alert flag (the first call may have
  started a cooldown) and the timestamp.
\<close>

theorem repeat_aggregate:
  "map erase_run_fields
       (insights (fst (aggregate list_set cfg now' rid (snd (aggregate list_set cfg now rid st)))))
     = map erase_run_fields (insights (fst (aggregate list_set cfg now rid st)))
   \<and> insight_buffer (snd (aggregate list_set cfg now rid st)) = insight_buffer st"
proof -
  have b: "buffer_of (snd (aggregate list_set cfg now rid st)) rid = buffer_of st rid"
    by (simp add: buffer_of_def aggregate_buffer)
  show ?thesis
    unfolding aggregate_erase b
    using score_groups_erase[of list_set now' rid "group_insights (buffer_of st rid)"
        "snd (aggregate list_set cfg now rid st)" now st]
    by (simp add: aggregate_buffer)
qed


text \<open>
  C5 as stated fails: the first call on round \<open>a\<close> returns the insight \<open>a-1\<close> as an
  alert, the call right after it returns \<open>a-2\<close>, not an alert.
\<close>

theorem repeat_aggregate_counterexample:
  "map (\<lambda>i. (insight_id i, is_alert i))
       (insights (fst (aggregate remdups default_settings 0 ''a'' two_rounds))) = [(''a-1'', True)]
   \<and> map (\<lambda>i. (insight_id i, is_alert i))
       (insights (fst (aggregate remdups default_settings 0 ''a''
          (snd (aggregate remdups default_settings 0 ''a'' two_rounds))))) = [(''a-2'', False)]
   \<and> insights (fst (aggregate remdups default_settings 0 ''a''
          (snd (aggregate remdups default_settings 0 ''a'' two_rounds))))
       \<noteq> insights (fst (aggregate remdups default_settings 0 ''a'' two_rounds))"
proof -
  have "insights (fst (aggregate remdups default_settings 0 ''a''
          (snd (aggregate remdups default_settings 0 ''a'' two_rounds))))
       \<noteq> insights (fst (aggregate remdups default_settings 0 ''a'' two_rounds))"
  proof
    assume "insights (fst (aggregate remdups default_settings 0 ''a''
          (snd (aggregate remdups default_settings 0 ''a'' two_rounds))))
       = insights (fst (aggregate remdups default_settings 0 ''a'' two_rounds))"
    then have "[(''a-2'', False)] = [(''a-1'', True)]"
      using two_rounds_eval(1) two_rounds_eval(3) by simp
    then show False by simp
  qed
  then show ?thesis using two_rounds_eval(1) two_rounds_eval(3) by simp
qed

subsection \<open>The scenario of round r1\<close>

text \<open>
  C1 (as the code has it). With the default settings and the three insights of
  \<open>scenario_r1\<close>, \<^verbatim>\<open>aggregate("r1")\<close> returns two insights: the fraud group made of the
  fraud-detection record alone (confidence 0.9, an alert), then the video group made of
  the video-analysis record alone (confidence 0.95, no alert). The speech group, at 0.4,
  is filtered out, and there is one recommendation, of type action. The category comes
  from the source of each record, so the two reports of multiple faces are two groups.
\<close>

theorem scenario_r1_batch:
  "set_listing list_set
   \<longrightarrow> map (\<lambda>i. (category i, insight_type i, confidence i, is_alert i))
          (insights (fst (aggregate list_set default_settings now ''r1'' scenario_r1)))
         = [(''fraud'', ''multiple_faces'', 9 / 10, True),
            (''video'', ''multiple_faces'', 19 / 20, False)]
       \<and> map rec_type (recommendations (fst (aggregate list_set default_settings now ''r1''
            scenario_r1))) = [''action'']"
proof
  assume sl: "set_listing list_set"
  have "map (\<lambda>i. (category i, insight_type i, confidence i, is_alert i))
          (insights (fst (aggregate list_set default_settings now ''r1'' scenario_r1)))
       = map (\<lambda>(i, c, t, cf, s, a). (c, t, cf, a))
          (map (\<lambda>i. (insight_id i, category i, insight_type i, confidence i, severity i, is_alert i))
           (insights (fst (aggregate list_set default_settings now ''r1'' scenario_r1))))"
    by simp
  also have "\<dots> = [(''fraud'', ''multiple_faces'', 9 / 10, True),
            (''video'', ''multiple_faces'', 19 / 20, False)]"
    by (simp only: scenario_r1_eval(1)[OF sl]) simp
  finally show "map (\<lambda>i. (category i, insight_type i, confidence i, is_alert i))
          (insights (fst (aggregate list_set default_settings now ''r1'' scenario_r1)))
         = [(''fraud'', ''multiple_faces'', 9 / 10, True),
            (''video'', ''multiple_faces'', 19 / 20, False)]
       \<and> map rec_type (recommendations (fst (aggregate list_set default_settings now ''r1''
            scenario_r1))) = [''action'']"
    using scenario_r1_eval(2)[OF sl] by simp
qed

theorem scenario_r1_batch_witness:
  "set_listing remdups
   \<and> map (\<lambda>i. (category i, insight_type i, confidence i, is_alert i))
          (insights (fst (aggregate remdups default_settings 0 ''r1'' scenario_r1)))
         = [(''fraud'', ''multiple_faces'', 9 / 10, True),
            (''video'', ''multiple_faces'', 19 / 20, False)]
   \<and> map rec_type (recommendations (fst (aggregate remdups default_settings 0 ''r1''
            scenario_r1))) = [''action'']"
  using scenario_r1_batch [of remdups 0] by (simp add: set_listing_def)

text \<open>
  C1 as stated fails: the batch has two insights, and the fraud one has confidence 0.9.
\<close>

theorem scenario_r1_counterexample:
  "length (insights (fst (aggregate remdups default_settings 0 ''r1'' scenario_r1))) \<noteq> 1
   \<and> map category (insights (fst (aggregate remdups default_settings 0 ''r1'' scenario_r1)))
       = [''fraud'', ''video'']
   \<and> map confidence (insights (fst (aggregate remdups default_settings 0 ''r1'' scenario_r1)))
       = [9 / 10, 19 / 20]"
proof -
  note e = scenario_r1_eval(1)[OF set_listing_remdups, of 0]
  have "length (insights (fst (aggregate remdups default_settings 0 ''r1'' scenario_r1)))
      = length (map (\<lambda>i. (insight_id i, category i, insight_type i, confidence i, severity i, is_alert i))
           (insights (fst (aggregate remdups default_settings 0 ''r1'' scenario_r1))))"
    by simp
  also have "\<dots> = 2" by (simp only: e) simp
  finally have l: "length (insights (fst (aggregate remdups default_settings 0 ''r1'' scenario_r1))) = 2" .
  have "map category (insights (fst (aggregate remdups default_settings 0 ''r1'' scenario_r1)))
      = map (\<lambda>(i, c, t, cf, s, a). c)
          (map (\<lambda>i. (insight_id i, category i, insight_type i, confidence i, severity i, is_alert i))
           (insights (fst (aggregate remdups default_settings 0 ''r1'' scenario_r1))))"
    by simp
  also have "\<dots> = [''fraud'', ''video'']" by (simp only: e) simp
  finally have c: "map category (insights (fst (aggregate remdups default_settings 0 ''r1'' scenario_r1)))
      = [''fraud'', ''video'']" .
  have "map confidence (insights (fst (aggregate remdups default_settings 0 ''r1'' scenario_r1)))
      = map (\<lambda>(i, c, t, cf, s, a). cf)
          (map (\<lambda>i. (insight_id i, category i, insight_type i, confidence i, severity i, is_alert i))
           (insights (fst (aggregate remdups default_settings 0 ''r1'' scenario_r1))))"
    by simp
  also have "\<dots> = [9 / 10, 19 / 20]" by (simp only: e) simp
  finally show ?thesis using l c by simp
qed

end
